theory Spec2Isabelle
  imports Main "HOL-Library.Word"
begin

section \<open>JavaScript strings\<close>

text \<open>
  A JavaScript string is a sequence of UTF-16 code units.  \<open>split\<close>, \<open>trim\<close> and
  \<open>join\<close> of \<open>src/App.js\<close> work on code units, so a string is a list of 16-bit words.
  ASCII literals of the source are written \<open>js ''...''\<close>.
\<close>

type_synonym code_unit = "16 word"
type_synonym jsstring = "code_unit list"

definition cu :: "char \<Rightarrow> code_unit" where
  "cu c = of_nat (of_char c)"

definition js :: "string \<Rightarrow> jsstring" where
  "js s = map cu s"

text \<open>
  \<open>String.prototype.trim\<close> strips WhiteSpace and LineTerminator code units from both
  ends: TAB, LF, VT, FF, CR, SPACE, NBSP, the other space separators (U+1680,
  U+2000..U+200A, U+202F, U+205F, U+3000), LS, PS and the byte order mark.
\<close>

definition isWhiteSpace :: "code_unit \<Rightarrow> bool" where
  "isWhiteSpace c \<longleftrightarrow>
     c \<in> set [0x09, 0x0A, 0x0B, 0x0C, 0x0D, 0x20, 0xA0, 0x1680,
              0x2028, 0x2029, 0x202F, 0x205F, 0x3000, 0xFEFF]
     \<or> (0x2000 \<le> c \<and> c \<le> 0x200A)"

definition trim :: "jsstring \<Rightarrow> jsstring" where
  "trim s = rev (dropWhile isWhiteSpace (rev (dropWhile isWhiteSpace s)))"

text \<open>
  \<open>s.split(sep)\<close> for a one-unit separator: a left-to-right scan that closes the
  current piece at every separator; the empty string gives one empty piece.
\<close>

fun split_scan :: "'a \<Rightarrow> 'a list \<Rightarrow> 'a list \<Rightarrow> 'a list list" where
  "split_scan sep cur [] = [rev cur]"
| "split_scan sep cur (x # xs) =
     (if x = sep then rev cur # split_scan sep [] xs
      else split_scan sep (x # cur) xs)"

definition js_split :: "'a \<Rightarrow> 'a list \<Rightarrow> 'a list list" where
  "js_split sep s = split_scan sep [] s"

text \<open>\<open>pieces.join(sep)\<close>.\<close>

fun js_join :: "'a list \<Rightarrow> 'a list list \<Rightarrow> 'a list" where
  "js_join sep [] = []"
| "js_join sep [p] = p"
| "js_join sep (p # q # ps) = p @ sep @ js_join sep (q # ps)"

definition LF :: code_unit where
  "LF = 0x0A"

definition COMMA :: code_unit where
  "COMMA = 0x2C"

text \<open>
  A property read from an upstream object is a string or is absent (\<open>null\<close> or
  \<open>undefined\<close>): \<open>jsstring option\<close>.  Such a value is truthy when it is a non-empty
  string.
\<close>

definition truthy :: "jsstring option \<Rightarrow> bool" where
  "truthy v = (case v of None \<Rightarrow> False | Some s \<Rightarrow> s \<noteq> [])"

section \<open>Meal objects\<close>

text \<open>
  The objects of the upstream \<open>meals\<close> arrays.  The filter endpoint fills the first
  three fields; the lookup endpoint also fills the rest, with the ingredients spread
  over the numbered properties \<open>strIngredient1\<close> .. \<open>strIngredient20\<close> and
  \<open>strMeasure1\<close> .. \<open>strMeasure20\<close>, read here by their number.
\<close>

record meal =
  idMeal :: jsstring
  strMeal :: jsstring
  strMealThumb :: jsstring
  strArea :: "jsstring option"
  strCategory :: "jsstring option"
  strInstructions :: "jsstring option"
  strYoutube :: "jsstring option"
  strIngredient :: "nat \<Rightarrow> jsstring option"
  strMeasure :: "nat \<Rightarrow> jsstring option"

record ingredient_line =
  ingredient :: jsstring
  measure_text :: jsstring

section \<open>extractIngredients\<close>

text \<open>
  The body of the loop \<open>for (let i = 1; i <= 20; i++)\<close>: the entry is pushed when
  \<open>ingredient && ingredient.trim()\<close> is truthy, with \<open>(measure || '').trim()\<close>.
\<close>

definition slot_present :: "meal \<Rightarrow> nat \<Rightarrow> bool" where
  "slot_present recipeDetails i \<longleftrightarrow>
     truthy (strIngredient recipeDetails i)
     \<and> truthy (map_option trim (strIngredient recipeDetails i))"

definition slot_line :: "meal \<Rightarrow> nat \<Rightarrow> ingredient_line" where
  "slot_line recipeDetails i =
     \<lparr> ingredient = trim (case strIngredient recipeDetails i of None \<Rightarrow> [] | Some s \<Rightarrow> s),
       measure_text = trim (if truthy (strMeasure recipeDetails i)
                            then (case strMeasure recipeDetails i of None \<Rightarrow> [] | Some m \<Rightarrow> m)
                            else []) \<rparr>"

function extract_loop :: "meal \<Rightarrow> nat \<Rightarrow> ingredient_line list \<Rightarrow> ingredient_line list" where
  "extract_loop recipeDetails i ingredients =
     (if i \<le> 20
      then extract_loop recipeDetails (i + 1)
             (if slot_present recipeDetails i
              then ingredients @ [slot_line recipeDetails i]
              else ingredients)
      else ingredients)"
  by pat_completeness auto
termination
  by (relation "measure (\<lambda>(d, i, acc). 21 - i)") auto

declare extract_loop.simps [simp del]

definition extractIngredients :: "meal \<Rightarrow> ingredient_line list" where
  "extractIngredients recipeDetails = extract_loop recipeDetails 1 []"

section \<open>formatInstructions\<close>

definition formatInstructions :: "jsstring option \<Rightarrow> jsstring list" where
  "formatInstructions instructions =
     (if \<not> truthy instructions then []
      else map trim (filter (\<lambda>step. trim step \<noteq> [])
             (js_split LF (case instructions of None \<Rightarrow> [] | Some s \<Rightarrow> s))))"

section \<open>Errors, promises and the network\<close>

text \<open>
  A thrown value is an error object; the handlers of the source read only its
  \<open>name\<close>, and the console shows its \<open>message\<close>.
\<close>

datatype js_error = JsError (err_name: jsstring) (err_message: jsstring)

definition Error :: "jsstring \<Rightarrow> js_error" where
  "Error msg = JsError (js ''Error'') msg"

definition TypeError :: "jsstring \<Rightarrow> js_error" where
  "TypeError msg = JsError (js ''TypeError'') msg"

definition URIError :: "jsstring \<Rightarrow> js_error" where
  "URIError msg = JsError (js ''URIError'') msg"

text \<open>
  What an awaited promise does: it never settles, it rejects, or it fulfils.
  \<open>await\<close> is the rest of an async function after \<open>await p\<close>: the function stays
  suspended on a pending promise and throws the reason of a rejected one.
\<close>

datatype 'a promise = Pending | Rejected js_error | Fulfilled 'a

definition await :: "'a promise \<Rightarrow> ('a \<Rightarrow> 'b promise) \<Rightarrow> 'b promise" where
  "await p k = (case p of Pending \<Rightarrow> Pending | Rejected e \<Rightarrow> Rejected e | Fulfilled v \<Rightarrow> k v)"

text \<open>
  A response of the upstream service: its status code, and what \<open>response.json()\<close>
  settles to.  The parsed body is an object whose \<open>meals\<close> property is \<open>null\<close>
  (\<open>None\<close>) or an array of meal objects.  \<open>response.ok\<close> is true for a status in
  200..299.
\<close>

record response =
  status :: nat
  json :: "meal list option promise"

definition ok :: "response \<Rightarrow> bool" where
  "ok r \<longleftrightarrow> 200 \<le> status r \<and> status r \<le> 299"

text \<open>
  The network: what \<open>fetch(url)\<close> settles to (a transport failure rejects with a
  TypeError), and the order in which the requests of one fan-out settle, given by
  their positions in the request list; positions not listed settle after the listed
  ones, in request order.
\<close>

record network =
  fetch :: "jsstring \<Rightarrow> response promise"
  arrival :: "nat list"

definition transport_failure :: "response promise \<Rightarrow> bool" where
  "transport_failure p \<longleftrightarrow>
     (case p of Rejected e \<Rightarrow> err_name e = js ''TypeError'' | _ \<Rightarrow> False)"

definition settle_order :: "nat \<Rightarrow> nat list \<Rightarrow> nat list" where
  "settle_order n arr = filter (\<lambda>i. i < n) arr @ filter (\<lambda>i. i \<notin> set arr) [0..<n]"

text \<open>
  \<open>Promise.all\<close>: it rejects with the reason of the first input that rejects, in
  the order in which the inputs settle, without waiting for the others; it fulfils
  with all values, in input order, once every input has fulfilled; otherwise it stays
  pending.
\<close>

fun first_rejection :: "'a promise list \<Rightarrow> nat list \<Rightarrow> js_error option" where
  "first_rejection ps [] = None"
| "first_rejection ps (i # order) =
     (case ps ! i of Rejected e \<Rightarrow> Some e | _ \<Rightarrow> first_rejection ps order)"

fun fulfilled_values :: "'a promise list \<Rightarrow> 'a list" where
  "fulfilled_values [] = []"
| "fulfilled_values (Fulfilled v # ps) = v # fulfilled_values ps"
| "fulfilled_values (_ # ps) = fulfilled_values ps"

fun is_pending :: "'a promise \<Rightarrow> bool" where
  "is_pending Pending = True"
| "is_pending _ = False"

definition promise_all :: "'a promise list \<Rightarrow> nat list \<Rightarrow> 'a list promise" where
  "promise_all ps arr =
     (case first_rejection ps (settle_order (length ps) arr) of
        Some e \<Rightarrow> Rejected e
      | None \<Rightarrow> if list_ex is_pending ps then Pending
                else Fulfilled (fulfilled_values ps))"

section \<open>encodeURIComponent and the request URLs\<close>

text \<open>
  \<open>encodeURIComponent\<close> keeps the unreserved code units (letters, digits and
  \<open>- _ . ! ~ * ' ( )\<close>) and writes every other code point as the percent-escaped
  octets of its UTF-8 form.  A surrogate without its partner throws a URIError.
\<close>

definition unreserved :: "code_unit \<Rightarrow> bool" where
  "unreserved c \<longleftrightarrow>
     (0x41 \<le> c \<and> c \<le> 0x5A) \<or> (0x61 \<le> c \<and> c \<le> 0x7A) \<or> (0x30 \<le> c \<and> c \<le> 0x39)
     \<or> c \<in> set [0x2D, 0x5F, 0x2E, 0x21, 0x7E, 0x2A, 0x27, 0x28, 0x29]"

definition leading_surrogate :: "code_unit \<Rightarrow> bool" where
  "leading_surrogate c \<longleftrightarrow> 0xD800 \<le> c \<and> c \<le> 0xDBFF"

definition trailing_surrogate :: "code_unit \<Rightarrow> bool" where
  "trailing_surrogate c \<longleftrightarrow> 0xDC00 \<le> c \<and> c \<le> 0xDFFF"

definition utf8_octets :: "nat \<Rightarrow> nat list" where
  "utf8_octets cp =
     (if cp < 0x80 then [cp]
      else if cp < 0x800 then [0xC0 + cp div 0x40, 0x80 + cp mod 0x40]
      else if cp < 0x10000
        then [0xE0 + cp div 0x1000, 0x80 + (cp div 0x40) mod 0x40, 0x80 + cp mod 0x40]
      else [0xF0 + cp div 0x40000, 0x80 + (cp div 0x1000) mod 0x40,
            0x80 + (cp div 0x40) mod 0x40, 0x80 + cp mod 0x40])"

definition hex_digit :: "nat \<Rightarrow> code_unit" where
  "hex_digit d = (if d < 10 then 0x30 + of_nat d else 0x41 + of_nat (d - 10))"

definition percent_octet :: "nat \<Rightarrow> jsstring" where
  "percent_octet b = [0x25, hex_digit (b div 16), hex_digit (b mod 16)]"

definition escape_code_point :: "nat \<Rightarrow> jsstring" where
  "escape_code_point cp = concat (map percent_octet (utf8_octets cp))"

definition prepend :: "jsstring \<Rightarrow> js_error + jsstring \<Rightarrow> js_error + jsstring" where
  "prepend xs r = (case r of Inl e \<Rightarrow> Inl e | Inr ys \<Rightarrow> Inr (xs @ ys))"

fun encodeURIComponent :: "jsstring \<Rightarrow> js_error + jsstring" where
  "encodeURIComponent [] = Inr []"
| "encodeURIComponent (c # cs) =
     (if unreserved c then prepend [c] (encodeURIComponent cs)
      else if \<not> leading_surrogate c \<and> \<not> trailing_surrogate c
        then prepend (escape_code_point (unat c)) (encodeURIComponent cs)
      else if trailing_surrogate c then Inl (URIError (js ''URI malformed''))
      else (case cs of
              [] \<Rightarrow> Inl (URIError (js ''URI malformed''))
            | d # ds \<Rightarrow>
                if \<not> trailing_surrogate d then Inl (URIError (js ''URI malformed''))
                else prepend
                       (escape_code_point
                          ((unat c - 0xD800) * 0x400 + (unat d - 0xDC00) + 0x10000))
                       (encodeURIComponent ds)))"

text \<open>The first exception of a sequence of evaluations, or all their values.\<close>

fun collect :: "(js_error + 'a) list \<Rightarrow> js_error + 'a list" where
  "collect [] = Inr []"
| "collect (Inl e # rs) = Inl e"
| "collect (Inr x # rs) = (case collect rs of Inl e \<Rightarrow> Inl e | Inr xs \<Rightarrow> Inr (x # xs))"

definition filter_url :: jsstring where
  "filter_url = js ''https://www.themealdb.com/api/json/v1/1/filter.php?i=''"

definition lookup_url :: jsstring where
  "lookup_url = js ''https://www.themealdb.com/api/json/v1/1/lookup.php?i=''"

text \<open>The decimal digits of a status code, as the template literal writes them.\<close>

fun show_nat :: "nat \<Rightarrow> jsstring" where
  "show_nat n =
     (if n < 10 then [0x30 + of_nat n]
      else show_nat (n div 10) @ [0x30 + of_nat (n mod 10)])"

declare show_nat.simps [simp del]

definition http_error :: "nat \<Rightarrow> js_error" where
  "http_error code = Error (js ''HTTP error! status: '' @ show_nat code)"

section \<open>The messages of the source\<close>

definition DQUOTE :: code_unit where
  "DQUOTE = 0x22"

definition APOSTROPHE :: code_unit where
  "APOSTROPHE = 0x27"

definition no_results_single :: "jsstring \<Rightarrow> jsstring" where
  "no_results_single query =
     js ''No recipes found with '' @ [DQUOTE] @ query @ [DQUOTE]
     @ js ''. Try another ingredient like chicken, tomato, or pasta!''"

definition no_results_multi :: "jsstring list \<Rightarrow> jsstring" where
  "no_results_multi ingredients =
     js ''No recipes found that match all ingredients: '' @ [DQUOTE]
     @ js_join (js '', '') ingredients @ [DQUOTE] @ js ''.''"

definition search_network_message :: jsstring where
  "search_network_message =
     js ''Network error: Please check your internet connection and try again.''"

definition search_apology_message :: jsstring where
  "search_apology_message =
     js ''Sorry, we encountered an error while searching. Please try again in a moment.''"

definition details_network_message :: jsstring where
  "details_network_message =
     js ''Unable to load recipe details. Please check your connection.''"

definition details_apology_message :: jsstring where
  "details_apology_message =
     js ''Sorry, we couldn'' @ [APOSTROPHE] @ js ''t load the recipe details. Please try again.''"

section \<open>The state of the App component\<close>

text \<open>
  The \<open>useState\<close> cells of \<open>App\<close>, and what \<open>console.error\<close> has printed: the label
  and the error object of each call.
\<close>

record app_state =
  searchQuery :: jsstring
  recipes :: "meal list"
  loading :: bool
  error :: jsstring
  hasSearched :: bool
  selectedRecipe :: "meal option"
  recipeDetails :: "meal option"
  detailsLoading :: bool
  detailsError :: jsstring
  console :: "(jsstring \<times> js_error) list"

section \<open>searchRecipes\<close>

text \<open>The trimmed, non-empty pieces of the comma-separated query.\<close>

definition parse_ingredients :: "jsstring \<Rightarrow> jsstring list" where
  "parse_ingredients query = filter (\<lambda>s. s \<noteq> []) (map trim (js_split COMMA query))"

text \<open>The six state resets before the \<open>try\<close>.\<close>

definition search_reset :: "app_state \<Rightarrow> app_state" where
  "search_reset st =
     st\<lparr> loading := True, error := [], detailsError := [], hasSearched := True,
         selectedRecipe := None, recipeDetails := None \<rparr>"

text \<open>
  One request of the fan-out: \<open>fetch(url).then(res => { if (!res.ok) throw ...;
  return res.json(); })\<close>.
\<close>

definition fetch_then_json :: "network \<Rightarrow> jsstring \<Rightarrow> meal list option promise" where
  "fetch_then_json net url =
     await (fetch net url)
       (\<lambda>res. if \<not> ok res then Rejected (http_error (status res)) else json res)"

text \<open>
  A request fails when \<open>fetch\<close> rejects, when the answer has a status outside
  200..299, or when reading the body rejects; a request that is never answered does
  not fail.
\<close>

definition request_fails :: "network \<Rightarrow> jsstring \<Rightarrow> bool" where
  "request_fails net url =
     (case fetch net url of
        Pending \<Rightarrow> False
      | Rejected e \<Rightarrow> True
      | Fulfilled res \<Rightarrow>
          if ok res then (case json res of Rejected e \<Rightarrow> True | _ \<Rightarrow> False)
          else True)"

text \<open>The intersection by \<open>idMeal\<close>, as the source computes it step by step.\<close>

definition idSets :: "meal list list \<Rightarrow> jsstring set list" where
  "idSets mealLists = map (\<lambda>l. set (map idMeal l)) mealLists"

definition commonIds :: "meal list list \<Rightarrow> meal list \<Rightarrow> jsstring list" where
  "commonIds mealLists firstList =
     filter (\<lambda>mealId. list_all (\<lambda>s. mealId \<in> s) (idSets mealLists)) (map idMeal firstList)"

text \<open>\<open>new Map(entries)\<close> sets the entries one after the other: a later entry wins.\<close>

definition mealMap :: "meal list \<Rightarrow> jsstring \<rightharpoonup> meal" where
  "mealMap firstList = fold (\<lambda>m mp. mp(idMeal m \<mapsto> m)) firstList Map.empty"

fun fallback_scan :: "meal list list \<Rightarrow> jsstring \<Rightarrow> meal option" where
  "fallback_scan [] mealId = None"
| "fallback_scan (r # rs) mealId =
     (case List.find (\<lambda>m. idMeal m = mealId) r of
        Some found \<Rightarrow> Some found
      | None \<Rightarrow> fallback_scan rs mealId)"

definition build_meal :: "meal list list \<Rightarrow> meal list \<Rightarrow> jsstring \<Rightarrow> meal option" where
  "build_meal mealLists firstList mealId =
     (case mealMap firstList mealId of
        Some m \<Rightarrow> Some m
      | None \<Rightarrow> fallback_scan mealLists mealId)"

fun filter_Boolean :: "'a option list \<Rightarrow> 'a list" where
  "filter_Boolean [] = []"
| "filter_Boolean (None # xs) = filter_Boolean xs"
| "filter_Boolean (Some x # xs) = x # filter_Boolean xs"

definition intersected :: "meal list list \<Rightarrow> meal list \<Rightarrow> meal list" where
  "intersected mealLists firstList =
     filter_Boolean (map (build_meal mealLists firstList) (commonIds mealLists firstList))"

text \<open>
  The reduction after \<open>Promise.all\<close>.  \<open>those results\<close> is \<open>None\<close> exactly when
  \<open>results.some(r => !r.meals)\<close>; an array, also an empty one, is truthy.  With no
  result at all \<open>results[0]\<close> is \<open>undefined\<close> and reading its \<open>meals\<close> throws a
  TypeError.
\<close>

definition reduce_results ::
  "jsstring list \<Rightarrow> meal list option list \<Rightarrow> app_state \<Rightarrow> app_state promise" where
  "reduce_results ingredients results st =
     (case those results of
        None \<Rightarrow>
          Fulfilled (st\<lparr> recipes := [], error := no_results_multi ingredients \<rparr>)
      | Some mealLists \<Rightarrow>
          (case mealLists of
             [] \<Rightarrow> Rejected (TypeError
                     (js ''Cannot read properties of undefined (reading ''
                      @ [APOSTROPHE] @ js ''meals'' @ [APOSTROPHE] @ js '')''))
           | firstList # others \<Rightarrow>
               if 0 < length (intersected mealLists firstList)
               then Fulfilled (st\<lparr> recipes := intersected mealLists firstList \<rparr>)
               else Fulfilled (st\<lparr> recipes := [],
                                   error := no_results_multi ingredients \<rparr>)))"

text \<open>
  The body of the \<open>try\<close>: the state it reaches, the error it throws, or \<open>Pending\<close>
  when an awaited promise never settles.  No state is set before a throw.
\<close>

definition search_try ::
  "network \<Rightarrow> jsstring \<Rightarrow> jsstring list \<Rightarrow> app_state \<Rightarrow> app_state promise" where
  "search_try net query ingredients st =
     (case ingredients of
        [ing] \<Rightarrow>
          (case encodeURIComponent ing of
             Inl e \<Rightarrow> Rejected e
           | Inr enc \<Rightarrow>
               await (fetch net (filter_url @ enc))
                 (\<lambda>response.
                    if \<not> ok response then Rejected (http_error (status response))
                    else await (json response)
                           (\<lambda>data. case data of
                                     Some ms \<Rightarrow> Fulfilled (st\<lparr> recipes := ms \<rparr>)
                                   | None \<Rightarrow>
                                       Fulfilled (st\<lparr> recipes := [],
                                                      error := no_results_single query \<rparr>))))
      | _ \<Rightarrow>
          (case collect (map encodeURIComponent ingredients) of
             Inl e \<Rightarrow> Rejected e
           | Inr encs \<Rightarrow>
               await (promise_all (map (\<lambda>enc. fetch_then_json net (filter_url @ enc)) encs)
                        (arrival net))
                 (\<lambda>results. reduce_results ingredients results st)))"

definition search_catch :: "js_error \<Rightarrow> app_state \<Rightarrow> app_state" where
  "search_catch err st =
     st\<lparr> console := console st @ [(js ''Search error:'', err)],
         error := (if err_name err = js ''TypeError'' then search_network_message
                   else search_apology_message),
         recipes := [] \<rparr>"

definition searchRecipes :: "network \<Rightarrow> jsstring \<Rightarrow> app_state \<Rightarrow> app_state" where
  "searchRecipes net query st =
     (if trim query = [] then st
      else (case search_try net query (parse_ingredients query) (search_reset st) of
              Pending \<Rightarrow> search_reset st
            | Rejected err \<Rightarrow> (search_catch err (search_reset st))\<lparr> loading := False \<rparr>
            | Fulfilled st' \<Rightarrow> st'\<lparr> loading := False \<rparr>))"

section \<open>fetchRecipeDetails\<close>

text \<open>\<open>data.meals?.[0]\<close> is truthy when \<open>meals\<close> is an array with a first element.\<close>

definition details_try :: "network \<Rightarrow> jsstring \<Rightarrow> app_state \<Rightarrow> app_state promise" where
  "details_try net recipeId st =
     await (fetch net (lookup_url @ recipeId))
       (\<lambda>response.
          if \<not> ok response then Rejected (http_error (status response))
          else await (json response)
                 (\<lambda>data. case data of
                           Some (m # ms) \<Rightarrow> Fulfilled (st\<lparr> recipeDetails := Some m \<rparr>)
                         | _ \<Rightarrow> Rejected (Error (js ''Recipe details not found''))))"

definition details_catch :: "js_error \<Rightarrow> app_state \<Rightarrow> app_state" where
  "details_catch err st =
     st\<lparr> console := console st @ [(js ''Details fetch error:'', err)],
         detailsError := (if err_name err = js ''TypeError'' then details_network_message
                          else details_apology_message),
         recipeDetails := None \<rparr>"

definition details_reset :: "app_state \<Rightarrow> app_state" where
  "details_reset st = st\<lparr> detailsLoading := True, detailsError := [] \<rparr>"

definition fetchRecipeDetails :: "network \<Rightarrow> jsstring \<Rightarrow> app_state \<Rightarrow> app_state" where
  "fetchRecipeDetails net recipeId st =
     (if recipeId = [] then st
      else (case details_try net recipeId (details_reset st) of
              Pending \<Rightarrow> details_reset st
            | Rejected err \<Rightarrow> (details_catch err (details_reset st))\<lparr> detailsLoading := False \<rparr>
            | Fulfilled st' \<Rightarrow> st'\<lparr> detailsLoading := False \<rparr>))"

section \<open>Example inputs\<close>

definition example_detail :: meal where
  "example_detail =
     \<lparr> idMeal = js ''52772'', strMeal = js ''Teriyaki'', strMealThumb = js ''t.jpg'',
       strArea = None, strCategory = None, strInstructions = None, strYoutube = None,
       strIngredient = (\<lambda>i. if i = 1 then Some (js ''soy sauce'')
                            else if i = 2 then Some (js ''  '')
                            else if i = 3 then Some (js '' water '')
                            else if i = 4 then Some []
                            else if i = 5 then Some (js ''chicken'')
                            else None),
       strMeasure = (\<lambda>i. if i = 1 then Some (js ''3/4 cup '')
                         else if i = 2 then Some (js ''1 tsp'')
                         else if i = 5 then Some []
                         else None) \<rparr>"

text \<open>The state of the component before any search: the initial \<open>useState\<close> values.\<close>

definition initial_state :: app_state where
  "initial_state =
     \<lparr> searchQuery = [], recipes = [], loading = False, error = [], hasSearched = False,
       selectedRecipe = None, recipeDetails = None, detailsLoading = False,
       detailsError = [], console = [] \<rparr>"

definition summary :: "string \<Rightarrow> string \<Rightarrow> meal" where
  "summary i n =
     \<lparr> idMeal = js i, strMeal = js n, strMealThumb = js ''thumb.jpg'',
       strArea = None, strCategory = None, strInstructions = None, strYoutube = None,
       strIngredient = (\<lambda>i. None), strMeasure = (\<lambda>i. None) \<rparr>"

definition ok_response :: "meal list option \<Rightarrow> response promise" where
  "ok_response data = Fulfilled \<lparr> status = 200, json = Fulfilled data \<rparr>"

text \<open>
  An upstream where ingredient \<open>a\<close> gives the meals 1, 2, 3, ingredient \<open>b\<close> the
  meals 2, 3, 4 and ingredient \<open>c\<close> the meal 4.  \<open>zzz\<close> is answered with \<open>meals\<close>
  \<open>null\<close> and \<open>none\<close> with an empty \<open>meals\<close> array; the request for \<open>down\<close> fails
  in transport, the one for \<open>err\<close> is answered with status 500 and the one for
  \<open>slow\<close> is never answered.  The lookup knows meal 52772 only.
\<close>

definition example_net :: network where
  "example_net =
     \<lparr> fetch = (\<lambda>url.
         if url = filter_url @ js ''a''
           then ok_response (Some [summary ''1'' ''X'', summary ''2'' ''Y'', summary ''3'' ''Z''])
         else if url = filter_url @ js ''b''
           then ok_response (Some [summary ''2'' ''Y'', summary ''3'' ''Z'', summary ''4'' ''W''])
         else if url = filter_url @ js ''c'' then ok_response (Some [summary ''4'' ''W''])
         else if url = filter_url @ js ''none'' then ok_response (Some [])
         else if url = filter_url @ js ''down''
           then Rejected (TypeError (js ''Failed to fetch''))
         else if url = filter_url @ js ''err''
           then Fulfilled \<lparr> status = 500, json = Pending \<rparr>
         else if url = filter_url @ js ''slow'' then Pending
         else if url = lookup_url @ js ''52772'' then ok_response (Some [example_detail])
         else ok_response None),
       arrival = [] \<rparr>"

text \<open>A state in which the details of a meal are on display.\<close>

definition showing_state :: app_state where
  "showing_state =
     initial_state\<lparr> searchQuery := js ''a'',
                     recipes := [summary ''52772'' ''Teriyaki''],
                     hasSearched := True,
                     selectedRecipe := Some (summary ''52772'' ''Teriyaki''),
                     recipeDetails := Some example_detail \<rparr>"

section \<open>Facts about strings\<close>

lemma trim_Nil [simp]: "trim [] = []"
  by (simp add: trim_def)

lemma dropWhile_rev_dropWhile:
  "dropWhile P (rev (dropWhile P (rev (dropWhile P s)))) = rev (dropWhile P (rev (dropWhile P s)))"
proof -
  define t where "t = dropWhile P s"
  define u where "u = dropWhile P (rev t)"
  have "dropWhile P (rev u) = rev u"
  proof (cases "u = []")
    case True
    then show ?thesis by simp
  next
    case False
    then have "rev t \<noteq> []" by (auto simp: u_def)
    then have "t \<noteq> []" by simp
    then have "\<not> P (hd t)" unfolding t_def by (rule hd_dropWhile)
    moreover have "rev t = takeWhile P (rev t) @ u"
      unfolding u_def by simp
    then have "rev (rev t) = rev (takeWhile P (rev t) @ u)" by simp
    then have "t = rev u @ rev (takeWhile P (rev t))" by simp
    with False have "hd (rev u) = hd t"
      by (metis hd_append2 rev_is_Nil_conv)
    ultimately have "\<not> P (hd (rev u))" by simp
    then show ?thesis
      by (simp add: dropWhile_eq_self_iff)
  qed
  then show ?thesis unfolding u_def t_def .
qed

lemma trim_idem: "trim (trim s) = trim s"
  by (simp add: trim_def dropWhile_rev_dropWhile)

lemma split_scan_not_Nil: "split_scan sep cur s \<noteq> []"
  by (induction s arbitrary: cur) auto

lemma split_scan_join:
  "js_join [sep] (split_scan sep cur s) = rev cur @ s"
proof (induction s arbitrary: cur)
  case Nil
  show ?case by simp
next
  case (Cons x xs)
  obtain p ps where "split_scan sep [] xs = p # ps"
    using split_scan_not_Nil [of sep "[]" xs] by (cases "split_scan sep [] xs") auto
  with Cons [of "[]"] Cons [of "x # cur"] show ?case
    by auto
qed

lemma split_scan_no_sep:
  "sep \<notin> set cur \<Longrightarrow> \<forall>p \<in> set (split_scan sep cur s). sep \<notin> set p"
proof (induction s arbitrary: cur)
  case Nil
  then show ?case by simp
next
  case (Cons x xs)
  show ?case
  proof (cases "x = sep")
    case True
    with Cons.prems Cons.IH [of "[]"] show ?thesis by simp
  next
    case False
    with Cons.prems Cons.IH [of "x # cur"] show ?thesis by simp
  qed
qed

lemma js_split_join: "js_join [sep] (js_split sep s) = s"
  by (simp add: js_split_def split_scan_join)

lemma js_split_no_sep: "p \<in> set (js_split sep s) \<Longrightarrow> sep \<notin> set p"
  using split_scan_no_sep [of sep "[]" s] by (simp add: js_split_def)

section \<open>Facts about extractIngredients\<close>

lemma extract_loop_closed:
  "extract_loop d i acc = acc @ map (slot_line d) (filter (slot_present d) [i..<21])"
proof (induction d i acc rule: extract_loop.induct)
  case (1 d i acc)
  show ?case
  proof (cases "i \<le> 20")
    case True
    then have "[i..<21] = i # [i + 1..<21]"
      by (simp add: upt_conv_Cons)
    with True "1" show ?thesis
      by (subst extract_loop.simps) simp
  next
    case False
    then show ?thesis
      by (subst extract_loop.simps) simp
  qed
qed

lemma extractIngredients_closed:
  "extractIngredients d = map (slot_line d) (filter (slot_present d) [1..<21])"
  by (simp add: extractIngredients_def extract_loop_closed)

lemma slot_present_iff:
  "slot_present d i \<longleftrightarrow> (\<exists>s. strIngredient d i = Some s \<and> trim s \<noteq> [])"
  by (auto simp: slot_present_def truthy_def split: option.splits)

lemma slot_line_name:
  "strIngredient d i = Some s \<Longrightarrow> ingredient (slot_line d i) = trim s"
  by (simp add: slot_line_def)

lemma slot_line_measure:
  "measure_text (slot_line d i) = trim (case strMeasure d i of None \<Rightarrow> [] | Some m \<Rightarrow> m)"
  by (simp add: slot_line_def truthy_def split: option.splits)

section \<open>Facts about searchRecipes\<close>

lemma search_try_single:
  "search_try net query [ing] st =
     (case encodeURIComponent ing of
        Inl e \<Rightarrow> Rejected e
      | Inr enc \<Rightarrow>
          await (fetch net (filter_url @ enc))
            (\<lambda>response.
               if \<not> ok response then Rejected (http_error (status response))
               else await (json response)
                      (\<lambda>data. case data of
                                Some ms \<Rightarrow> Fulfilled (st\<lparr> recipes := ms \<rparr>)
                              | None \<Rightarrow>
                                  Fulfilled (st\<lparr> recipes := [],
                                                 error := no_results_single query \<rparr>))))"
  by (simp add: search_try_def)

lemma search_try_multi:
  "length ingredients \<noteq> 1 \<Longrightarrow>
   search_try net query ingredients st =
     (case collect (map encodeURIComponent ingredients) of
        Inl e \<Rightarrow> Rejected e
      | Inr encs \<Rightarrow>
          await (promise_all (map (\<lambda>enc. fetch_then_json net (filter_url @ enc)) encs)
                   (arrival net))
            (\<lambda>results. reduce_results ingredients results st))"
  by (cases ingredients; cases "tl ingredients") (auto simp: search_try_def split: list.splits)

lemma reduce_results_Fulfilled:
  "reduce_results ings results st = Fulfilled st' \<Longrightarrow>
     st' = st\<lparr> recipes := [], error := no_results_multi ings \<rparr>
     \<or> (\<exists>ms. ms \<noteq> [] \<and> st' = st\<lparr> recipes := ms \<rparr>)"
  by (auto simp: reduce_results_def split: option.splits list.splits if_splits)

lemma search_try_Fulfilled:
  "search_try net query ings st = Fulfilled st' \<Longrightarrow>
     st' = st\<lparr> recipes := [], error := no_results_multi ings \<rparr>
     \<or> st' = st\<lparr> recipes := [], error := no_results_single query \<rparr>
     \<or> (\<exists>ms. st' = st\<lparr> recipes := ms \<rparr>)"
proof (cases "length ings = 1")
  case True
  then obtain ing where "ings = [ing]"
    by (cases ings) auto
  moreover assume "search_try net query ings st = Fulfilled st'"
  ultimately show ?thesis
    by (auto simp: search_try_single await_def split: sum.splits promise.splits if_splits option.splits)
next
  case False
  moreover assume "search_try net query ings st = Fulfilled st'"
  ultimately show ?thesis
    using reduce_results_Fulfilled [of ings _ st st']
    by (auto simp: search_try_multi await_def split: sum.splits promise.splits)
qed

lemma js_split_no_sep_id: "sep \<notin> set s \<Longrightarrow> split_scan sep cur s = [rev cur @ s]"
  by (induction s arbitrary: cur) auto

lemma not_whitespace_COMMA: "\<not> isWhiteSpace COMMA"
  by (simp add: isWhiteSpace_def COMMA_def)

lemma trim_Nil_iff: "trim s = [] \<longleftrightarrow> (\<forall>c \<in> set s. isWhiteSpace c)"
proof
  assume "trim s = []"
  then have all: "\<forall>x \<in> set (dropWhile isWhiteSpace s). isWhiteSpace x"
    by (simp add: trim_def dropWhile_eq_Nil_conv)
  have "dropWhile isWhiteSpace s = []"
  proof (rule ccontr)
    assume ne: "dropWhile isWhiteSpace s \<noteq> []"
    then have "\<not> isWhiteSpace (hd (dropWhile isWhiteSpace s))"
      by (rule hd_dropWhile)
    moreover from ne have "hd (dropWhile isWhiteSpace s) \<in> set (dropWhile isWhiteSpace s)"
      by simp
    ultimately show False using all by blast
  qed
  then show "\<forall>c \<in> set s. isWhiteSpace c"
    by (simp add: dropWhile_eq_Nil_conv)
next
  assume "\<forall>c \<in> set s. isWhiteSpace c"
  then show "trim s = []"
    by (auto simp: trim_def dest: set_dropWhileD)
qed

lemma parse_blank: "trim query = [] \<Longrightarrow> parse_ingredients query = []"
proof -
  assume b: "trim query = []"
  then have "COMMA \<notin> set query"
    using not_whitespace_COMMA by (auto simp: trim_Nil_iff)
  then have "js_split COMMA query = [query]"
    by (simp add: js_split_def js_split_no_sep_id)
  with b show ?thesis by (simp add: parse_ingredients_def)
qed


lemma search_error_clears:
  assumes "trim query \<noteq> []" and "error (searchRecipes net query st) \<noteq> []"
  shows "recipes (searchRecipes net query st) = []"
proof (cases "search_try net query (parse_ingredients query) (search_reset st)")
  case Pending
  with assms show ?thesis by (simp add: searchRecipes_def search_reset_def)
next
  case (Rejected e)
  with assms show ?thesis by (simp add: searchRecipes_def search_catch_def)
next
  case (Fulfilled st')
  from search_try_Fulfilled [OF Fulfilled] assms Fulfilled show ?thesis
    by (auto simp: searchRecipes_def search_reset_def)
qed

section \<open>Facts about Promise.all\<close>

lemma set_settle_order: "set (settle_order n arr) = {0..<n}"
  by (auto simp: settle_order_def)

lemma first_rejection_None:
  "first_rejection ps order = None \<longleftrightarrow> (\<forall>i \<in> set order. \<forall>e. ps ! i \<noteq> Rejected e)"
  by (induction order) (auto split: promise.splits)

lemma first_rejection_Some:
  "first_rejection ps order = Some e \<Longrightarrow> \<exists>i \<in> set order. ps ! i = Rejected e"
  by (induction order) (auto split: promise.splits)

lemma first_rejection_append:
  "\<forall>j \<in> set pre. \<forall>e'. ps ! j \<noteq> Rejected e' \<Longrightarrow> ps ! i = Rejected e \<Longrightarrow>
   first_rejection ps (pre @ i # post) = Some e"
  by (induction pre) (auto split: promise.splits)

lemma promise_all_Rejected:
  "promise_all ps arr = Rejected e \<Longrightarrow> Rejected e \<in> set ps"
proof -
  assume "promise_all ps arr = Rejected e"
  then have "first_rejection ps (settle_order (length ps) arr) = Some e"
    by (auto simp: promise_all_def split: option.splits if_splits)
  then obtain i where "i \<in> set (settle_order (length ps) arr)" "ps ! i = Rejected e"
    by (auto dest: first_rejection_Some)
  then have "i < length ps" "ps ! i = Rejected e"
    by (simp_all add: set_settle_order)
  then show ?thesis
    by (metis nth_mem)
qed

lemma promise_all_some_rejected:
  assumes "Rejected e \<in> set ps"
  shows "\<exists>e'. promise_all ps arr = Rejected e'"
proof -
  from assms obtain i where "i < length ps" "ps ! i = Rejected e"
    by (auto simp: in_set_conv_nth)
  then have "first_rejection ps (settle_order (length ps) arr) \<noteq> None"
    by (auto simp: first_rejection_None set_settle_order)
  then show ?thesis
    by (auto simp: promise_all_def)
qed

lemma promise_all_no_rejection:
  assumes "\<forall>e. Rejected e \<notin> set ps"
  shows "promise_all ps arr = (if Pending \<in> set ps then Pending else Fulfilled (fulfilled_values ps))"
proof -
  have "first_rejection ps (settle_order (length ps) arr) = None"
    unfolding first_rejection_None set_settle_order
  proof (intro ballI allI)
    fix i e assume "i \<in> {0..<length ps}"
    then have "ps ! i \<in> set ps" by simp
    with assms show "ps ! i \<noteq> Rejected e" by metis
  qed
  moreover have "list_ex is_pending ps \<longleftrightarrow> Pending \<in> set ps"
    unfolding list_ex_iff
  proof
    assume "\<exists>p \<in> set ps. is_pending p"
    then obtain p where p: "p \<in> set ps" "is_pending p" by blast
    have "p = Pending" using p(2) by (cases p) simp_all
    with p(1) show "Pending \<in> set ps" by simp
  next
    assume "Pending \<in> set ps"
    then show "\<exists>p \<in> set ps. is_pending p" by force
  qed
  ultimately show ?thesis
    by (simp add: promise_all_def)
qed

lemma fulfilled_values_map [simp]: "fulfilled_values (map Fulfilled vs) = vs"
  by (induction vs) auto

lemma map_fulfilled_values:
  "Pending \<notin> set ps \<Longrightarrow> \<forall>e. Rejected e \<notin> set ps \<Longrightarrow> map Fulfilled (fulfilled_values ps) = ps"
  by (induction ps rule: fulfilled_values.induct) auto

lemma promise_all_Fulfilled:
  assumes "promise_all ps arr = Fulfilled vs"
  shows "ps = map Fulfilled vs"
proof -
  have nr: "\<forall>e. Rejected e \<notin> set ps"
  proof (intro allI notI)
    fix e assume "Rejected e \<in> set ps"
    from promise_all_some_rejected [OF this, of arr] assms show False by auto
  qed
  with assms promise_all_no_rejection [OF nr, of arr]
  have "Pending \<notin> set ps" "vs = fulfilled_values ps"
    by (auto split: if_splits)
  with nr show ?thesis by (simp add: map_fulfilled_values)
qed

lemma promise_all_map_Fulfilled [simp]:
  "promise_all (map Fulfilled vs) arr = Fulfilled vs"
proof -
  have "\<forall>e. Rejected e \<notin> set (map Fulfilled vs)" by auto
  from promise_all_no_rejection [OF this, of arr] show ?thesis by auto
qed

lemma promise_all_first:
  "settle_order (length ps) arr = pre @ i # post \<Longrightarrow>
   \<forall>j \<in> set pre. \<forall>e'. ps ! j \<noteq> Rejected e' \<Longrightarrow> ps ! i = Rejected e \<Longrightarrow>
   promise_all ps arr = Rejected e"
  by (simp add: promise_all_def first_rejection_append)

section \<open>Facts about the intersection\<close>

lemma mealMap_Nil [simp]: "mealMap [] = Map.empty"
  by (simp add: mealMap_def)

lemma mealMap_snoc [simp]: "mealMap (xs @ [x]) = (mealMap xs)(idMeal x \<mapsto> x)"
  by (simp add: mealMap_def)

lemma mealMap_None: "mealMap l i = None \<longleftrightarrow> i \<notin> idMeal ` set l"
  by (induction l rule: rev_induct) auto

lemma mealMap_Some: "mealMap l i = Some m \<Longrightarrow> idMeal m = i \<and> m \<in> set l"
  by (induction l rule: rev_induct) (auto split: if_splits)

lemma mealMap_distinct:
  "distinct (map idMeal l) \<Longrightarrow> m \<in> set l \<Longrightarrow> mealMap l (idMeal m) = Some m"
proof (induction l rule: rev_induct)
  case Nil
  then show ?case by simp
next
  case (snoc x xs)
  show ?case
  proof (cases "m = x")
    case True
    then show ?thesis by simp
  next
    case False
    with snoc.prems have "m \<in> set xs" "idMeal x \<notin> idMeal ` set xs" "distinct (map idMeal xs)"
      by auto
    then have "idMeal m \<noteq> idMeal x" and "mealMap xs (idMeal m) = Some m"
      using snoc.IH by (metis imageI, metis)
    then show ?thesis by simp
  qed
qed

lemma commonIds_subset: "set (commonIds mealLists firstList) \<subseteq> idMeal ` set firstList"
  by (auto simp: commonIds_def)

lemma build_meal_common:
  "i \<in> set (commonIds mealLists firstList) \<Longrightarrow>
   build_meal mealLists firstList i = mealMap firstList i \<and> mealMap firstList i \<noteq> None"
  using commonIds_subset [of mealLists firstList] mealMap_None [of firstList i]
  by (auto simp: build_meal_def split: option.splits)

lemma filter_Boolean_map_Some [simp]: "filter_Boolean (map Some xs) = xs"
  by (induction xs) auto

lemma filter_Boolean_all_Some:
  "None \<notin> set xs \<Longrightarrow> map Some (filter_Boolean xs) = xs"
  by (induction xs rule: filter_Boolean.induct) auto

lemma raw_all_Some:
  "map (build_meal mealLists firstList) (commonIds mealLists firstList)
     = map Some (map (\<lambda>i. the (mealMap firstList i)) (commonIds mealLists firstList))"
  unfolding map_map
proof (rule map_cong [OF refl])
  fix i assume "i \<in> set (commonIds mealLists firstList)"
  from build_meal_common [OF this]
  show "build_meal mealLists firstList i = (Some \<circ> (\<lambda>i. the (mealMap firstList i))) i"
    by auto
qed

lemma intersected_eq:
  "intersected mealLists firstList
     = map (\<lambda>i. the (mealMap firstList i)) (commonIds mealLists firstList)"
  by (simp only: intersected_def raw_all_Some filter_Boolean_map_Some)

lemma intersected_Some:
  "map Some (intersected mealLists firstList)
     = map (build_meal mealLists firstList) (commonIds mealLists firstList)"
  by (simp only: raw_all_Some intersected_eq)

lemma intersected_ids:
  "map idMeal (intersected mealLists firstList) = commonIds mealLists firstList"
  unfolding intersected_eq map_map
proof (rule map_idI)
  fix i assume "i \<in> set (commonIds mealLists firstList)"
  from build_meal_common [OF this] obtain m where m: "mealMap firstList i = Some m"
    by auto
  from mealMap_Some [OF m] m show "(idMeal \<circ> (\<lambda>i. the (mealMap firstList i))) i = i"
    by simp
qed

lemma commonIds_member:
  "list_all (\<lambda>s. i \<in> s) (idSets mealLists) \<longleftrightarrow> (\<forall>l \<in> set mealLists. i \<in> idMeal ` set l)"
  by (auto simp: idSets_def list_all_iff)

lemma intersected_distinct:
  assumes "distinct (map idMeal firstList)"
  shows "intersected mealLists firstList
       = filter (\<lambda>m. \<forall>l \<in> set mealLists. idMeal m \<in> idMeal ` set l) firstList"
proof -
  let ?P = "\<lambda>m. \<forall>l \<in> set mealLists. idMeal m \<in> idMeal ` set l"
  have c: "commonIds mealLists firstList = map idMeal (filter ?P firstList)"
    by (simp add: commonIds_def commonIds_member filter_map comp_def)
  show ?thesis
    unfolding intersected_eq c map_map
  proof (rule map_idI)
    fix m assume "m \<in> set (filter ?P firstList)"
    then have "m \<in> set firstList" by simp
    from mealMap_distinct [OF assms this]
    show "((\<lambda>i. the (mealMap firstList i)) \<circ> idMeal) m = m" by simp
  qed
qed

section \<open>Facts about the whole search\<close>

lemmas string_eval = js_def cu_def trim_def isWhiteSpace_def COMMA_def LF_def js_split_def
  DQUOTE_def APOSTROPHE_def
lemmas encode_eval = unreserved_def leading_surrogate_def trailing_surrogate_def prepend_def
  escape_code_point_def utf8_octets_def percent_octet_def hex_digit_def filter_url_def lookup_url_def
lemmas search_eval = searchRecipes_def parse_ingredients_def search_reset_def search_try_def
  search_catch_def await_def fetch_then_json_def ok_def reduce_results_def promise_all_def
  settle_order_def intersected_def commonIds_def idSets_def build_meal_def mealMap_def
  http_error_def Error_def TypeError_def URIError_def
lemmas example_eval = example_net_def ok_response_def summary_def initial_state_def

lemma parse_nonblank: "parse_ingredients query \<noteq> [] \<Longrightarrow> trim query \<noteq> []"
  using parse_blank by blast

lemma those_map_Some [simp]: "those (map Some xs) = Some xs"
  by (induction xs) auto




lemma reduce_results_all:
  "reduce_results ings (map Some (firstList # others)) st =
     Fulfilled (if intersected (firstList # others) firstList \<noteq> []
                then st\<lparr> recipes := intersected (firstList # others) firstList \<rparr>
                else st\<lparr> recipes := [], error := no_results_multi ings \<rparr>)"
  using those_map_Some [of "firstList # others"]
  by (simp add: reduce_results_def del: those_map_Some list.map)

lemma search_single_final:
  assumes "parse_ingredients query = [ing]" "encodeURIComponent ing = Inr enc"
  shows "searchRecipes net query st =
     (case await (fetch net (filter_url @ enc))
            (\<lambda>response.
               if \<not> ok response then Rejected (http_error (status response))
               else await (json response)
                      (\<lambda>data. case data of
                                Some ms \<Rightarrow> Fulfilled ((search_reset st)\<lparr> recipes := ms \<rparr>)
                              | None \<Rightarrow>
                                  Fulfilled ((search_reset st)\<lparr> recipes := [],
                                                 error := no_results_single query \<rparr>))) of
        Pending \<Rightarrow> search_reset st
      | Rejected err \<Rightarrow> (search_catch err (search_reset st))\<lparr> loading := False \<rparr>
      | Fulfilled st' \<Rightarrow> st'\<lparr> loading := False \<rparr>)"
proof -
  from assms(1) have "trim query \<noteq> []" by (simp add: parse_nonblank)
  with assms show ?thesis
    by (simp add: searchRecipes_def search_try_single)
qed

lemma search_multi_final:
  assumes "parse_ingredients query = ings" "2 \<le> length ings"
    "collect (map encodeURIComponent ings) = Inr encs"
  shows "searchRecipes net query st =
     (case await (promise_all (map (\<lambda>enc. fetch_then_json net (filter_url @ enc)) encs)
                   (arrival net))
            (\<lambda>results. reduce_results ings results (search_reset st)) of
        Pending \<Rightarrow> search_reset st
      | Rejected err \<Rightarrow> (search_catch err (search_reset st))\<lparr> loading := False \<rparr>
      | Fulfilled st' \<Rightarrow> st'\<lparr> loading := False \<rparr>)"
proof -
  from assms(1,2) have "parse_ingredients query \<noteq> []" by auto
  then have "trim query \<noteq> []" by (rule parse_nonblank)
  moreover from assms(2) have "length ings \<noteq> 1" by simp
  ultimately show ?thesis using assms(1,3)
    by (simp add: searchRecipes_def search_try_multi)
qed

lemma search_multi_fulfilled:
  assumes "parse_ingredients query = ings" "2 \<le> length ings"
    "collect (map encodeURIComponent ings) = Inr encs"
    "map (\<lambda>enc. fetch_then_json net (filter_url @ enc)) encs = map Fulfilled results"
  shows "searchRecipes net query st =
     (case reduce_results ings results (search_reset st) of
        Pending \<Rightarrow> search_reset st
      | Rejected err \<Rightarrow> (search_catch err (search_reset st))\<lparr> loading := False \<rparr>
      | Fulfilled st' \<Rightarrow> st'\<lparr> loading := False \<rparr>)"
  by (simp only: search_multi_final [OF assms(1-3)] assms(4) promise_all_map_Fulfilled)
     (simp add: await_def)

lemma search_multi_matching:
  assumes "parse_ingredients query = ings" "2 \<le> length ings"
    "collect (map encodeURIComponent ings) = Inr encs"
    "map (\<lambda>enc. fetch_then_json net (filter_url @ enc)) encs
       = map (\<lambda>l. Fulfilled (Some l)) (firstList # others)"
  shows "searchRecipes net query st =
     (if intersected (firstList # others) firstList \<noteq> []
      then (search_reset st)\<lparr> recipes := intersected (firstList # others) firstList,
                               loading := False \<rparr>
      else (search_reset st)\<lparr> recipes := [], error := no_results_multi ings,
                               loading := False \<rparr>)"
proof -
  have "map (\<lambda>enc. fetch_then_json net (filter_url @ enc)) encs
          = map Fulfilled (map Some (firstList # others))"
    using assms(4) by (simp del: list.map)
  from search_multi_fulfilled [OF assms(1-3) this] show ?thesis
    by (simp only: reduce_results_all) simp
qed

lemma no_results_single_nonempty: "no_results_single query \<noteq> []"
  by (simp add: no_results_single_def js_def)

lemma no_results_multi_nonempty: "no_results_multi ings \<noteq> []"
  by (simp add: no_results_multi_def js_def)

lemma search_reset_error [simp]: "error (search_reset st) = []"
  by (simp add: search_reset_def)

lemma search_rejected_final:
  assumes "trim query \<noteq> []"
    and "search_try net query (parse_ingredients query) (search_reset st) = Rejected e"
  shows "searchRecipes net query st =
           (search_catch e (search_reset st))\<lparr> loading := False \<rparr>"
  using assms by (simp add: searchRecipes_def)

lemma search_messages_nonempty:
  "search_network_message \<noteq> []" "search_apology_message \<noteq> []"
  by (simp_all add: search_network_message_def search_apology_message_def js_def)

lemma search_catch_fields:
  "recipes (search_catch e st) = []"
  "error (search_catch e st) \<noteq> []"
  "console (search_catch e st) = console st @ [(js ''Search error:'', e)]"
  by (simp_all add: search_catch_def search_messages_nonempty)

lemma search_try_keeps_details:
  assumes "search_try net query ings st = Fulfilled st'"
  shows "selectedRecipe st' = selectedRecipe st \<and> recipeDetails st' = recipeDetails st
         \<and> detailsError st' = detailsError st"
  using search_try_Fulfilled [OF assms] by auto

lemma comma_query_terms: "parse_ingredients (js '','') = []"
  by (simp add: parse_ingredients_def string_eval)

lemmas details_eval = fetchRecipeDetails_def details_try_def details_reset_def details_catch_def
  details_apology_message_def details_network_message_def

lemma example_single:
  "parse_ingredients (js ''err'') = [js ''err'']"
  "parse_ingredients (js ''zzz'') = [js ''zzz'']"
  "parse_ingredients (js ''down'') = [js ''down'']"
  "parse_ingredients (js ''slow'') = [js ''slow'']"
  "encodeURIComponent (js ''err'') = Inr (js ''err'')"
  "encodeURIComponent (js ''zzz'') = Inr (js ''zzz'')"
  "encodeURIComponent (js ''down'') = Inr (js ''down'')"
  "encodeURIComponent (js ''slow'') = Inr (js ''slow'')"
  by (simp_all add: parse_ingredients_def string_eval encode_eval)

lemma example_multi:
  "parse_ingredients (js ''a, zzz'') = [js ''a'', js ''zzz'']"
  "parse_ingredients (js ''a, c'') = [js ''a'', js ''c'']"
  "parse_ingredients (js ''slow, down'') = [js ''slow'', js ''down'']"
  "parse_ingredients (js ''slow, a'') = [js ''slow'', js ''a'']"
  "parse_ingredients (js ''err, down'') = [js ''err'', js ''down'']"
  "collect (map encodeURIComponent [js ''a'', js ''zzz'']) = Inr [js ''a'', js ''zzz'']"
  "collect (map encodeURIComponent [js ''a'', js ''c'']) = Inr [js ''a'', js ''c'']"
  "collect (map encodeURIComponent [js ''slow'', js ''down'']) = Inr [js ''slow'', js ''down'']"
  "collect (map encodeURIComponent [js ''slow'', js ''a'']) = Inr [js ''slow'', js ''a'']"
  "collect (map encodeURIComponent [js ''err'', js ''down'']) = Inr [js ''err'', js ''down'']"
  by (simp_all add: parse_ingredients_def string_eval encode_eval)

lemma example_fetch:
  "fetch example_net (filter_url @ js ''err'') = Fulfilled \<lparr> status = 500, json = Pending \<rparr>"
  "fetch example_net (filter_url @ js ''zzz'') = Fulfilled \<lparr> status = 200, json = Fulfilled None \<rparr>"
  "fetch example_net (filter_url @ js ''down'') = Rejected (TypeError (js ''Failed to fetch''))"
  "fetch example_net (filter_url @ js ''slow'') = Pending"
  "fetch example_net (lookup_url @ js ''99999'') = Fulfilled \<lparr> status = 200, json = Fulfilled None \<rparr>"
  by (simp_all add: example_net_def ok_response_def filter_url_def lookup_url_def js_def cu_def)

lemma example_chains:
  "fetch_then_json example_net (filter_url @ js ''a'')
     = Fulfilled (Some [summary ''1'' ''X'', summary ''2'' ''Y'', summary ''3'' ''Z''])"
  "fetch_then_json example_net (filter_url @ js ''c'') = Fulfilled (Some [summary ''4'' ''W''])"
  "fetch_then_json example_net (filter_url @ js ''zzz'') = Fulfilled None"
  "fetch_then_json example_net (filter_url @ js ''slow'') = Pending"
  "fetch_then_json example_net (filter_url @ js ''down'') = Rejected (TypeError (js ''Failed to fetch''))"
  "fetch_then_json example_net (filter_url @ js ''err'') = Rejected (http_error 500)"
  by (simp_all add: fetch_then_json_def await_def ok_def example_net_def ok_response_def
        filter_url_def js_def cu_def)

lemma digit_inj:
  assumes "(0x30::16 word) + of_nat a = 0x30 + of_nat b" "a < 10" "b < 10"
  shows "a = b"
proof -
  from assms(1) have "(of_nat a :: 16 word) = of_nat b" by simp
  then have "unat (of_nat a :: 16 word) = unat (of_nat b :: 16 word)" by simp
  then have "a mod 65536 = b mod 65536" by (simp add: unat_of_nat)
  with assms(2,3) show ?thesis by simp
qed

lemma show_nat_not_Nil: "show_nat n \<noteq> []"
  by (subst show_nat.simps) simp

lemma show_nat_inj: "show_nat n = show_nat m \<Longrightarrow> n = m"
proof (induction n arbitrary: m rule: show_nat.induct)
  case (1 n)
  show ?case
  proof (cases "n < 10")
    case True
    show ?thesis
    proof (cases "m < 10")
      case m: True
      from "1.prems" True m have "(0x30::16 word) + of_nat n = 0x30 + of_nat m"
        by (simp add: show_nat.simps [of n] show_nat.simps [of m])
      then show ?thesis using True m by (rule digit_inj)
    next
      case m: False
      from "1.prems" True m show_nat_not_Nil [of "m div 10"] show ?thesis
        by (simp add: show_nat.simps [of n] show_nat.simps [of m])
    qed
  next
    case False
    show ?thesis
    proof (cases "m < 10")
      case m: True
      from "1.prems" False m show_nat_not_Nil [of "n div 10"] show ?thesis
        by (simp add: show_nat.simps [of n] show_nat.simps [of m])
    next
      case m: False
      from "1.prems" False m
      have eq: "show_nat (n div 10) = show_nat (m div 10)"
        and d: "(0x30::16 word) + of_nat (n mod 10) = 0x30 + of_nat (m mod 10)"
        by (simp_all add: show_nat.simps [of n] show_nat.simps [of m])
      from "1.IH" [OF False eq] have "n div 10 = m div 10" .
      moreover from d have "n mod 10 = m mod 10"
        by (rule digit_inj) simp_all
      ultimately show ?thesis
        by (metis div_mult_mod_eq)
    qed
  qed
qed

lemma messages_differ: "search_network_message \<noteq> search_apology_message"
  by (simp add: search_network_message_def search_apology_message_def js_def cu_def)

lemma error_names:
  "err_name (TypeError msg) = js ''TypeError''"
  "err_name (http_error code) \<noteq> js ''TypeError''"
  "err_message (http_error code) = js ''HTTP error! status: '' @ show_nat code"
  by (simp_all add: TypeError_def http_error_def Error_def js_def cu_def)

lemma chain_fetch_rejected:
  "fetch net url = Rejected e \<Longrightarrow> fetch_then_json net url = Rejected e"
  by (simp add: fetch_then_json_def await_def)

lemma transport_failure_Rejected:
  "transport_failure p \<Longrightarrow> \<exists>e. p = Rejected e \<and> err_name e = js ''TypeError''"
  by (cases p) (simp_all add: transport_failure_def)

lemma chain_http_failure:
  "fetch net url = Fulfilled response \<Longrightarrow> \<not> ok response \<Longrightarrow>
   fetch_then_json net url = Rejected (http_error (status response))"
  by (simp add: fetch_then_json_def await_def)

lemma search_multi_rejected:
  assumes "parse_ingredients query = ings" "2 \<le> length ings"
    "collect (map encodeURIComponent ings) = Inr encs"
    "promise_all (map (\<lambda>enc. fetch_then_json net (filter_url @ enc)) encs) (arrival net)
       = Rejected e"
  shows "searchRecipes net query st = (search_catch e (search_reset st))\<lparr> loading := False \<rparr>"
  by (simp only: search_multi_final [OF assms(1-3)] assms(4)) (simp add: await_def)


lemma search_reset_loading [simp]: "loading (search_reset st)"
  by (simp add: search_reset_def)





lemma request_fails_iff:
  "request_fails net url \<longleftrightarrow> (\<exists>e. fetch_then_json net url = Rejected e)"
  by (auto simp: request_fails_def fetch_then_json_def await_def split: promise.splits)

lemma chain_transport_failure:
  assumes "transport_failure (fetch net url)"
  shows "\<exists>e. fetch net url = Rejected e \<and> fetch_then_json net url = Rejected e
             \<and> err_name e = js ''TypeError''"
  using transport_failure_Rejected [OF assms] chain_fetch_rejected by blast

lemma search_multi_first_failure:
  assumes a1: "parse_ingredients query = ings" and a2: "2 \<le> length ings"
    and a3: "collect (map encodeURIComponent ings) = Inr encs"
    and so: "settle_order (length encs) (arrival net) = pre @ i # post"
    and before: "\<forall>j \<in> set pre. \<not> request_fails net (filter_url @ encs ! j)"
    and rej: "fetch_then_json net (filter_url @ encs ! i) = Rejected e"
  shows "searchRecipes net query st = (search_catch e (search_reset st))\<lparr> loading := False \<rparr>"
proof -
  let ?fetches = "map (\<lambda>enc. fetch_then_json net (filter_url @ enc)) encs"
  have in_range: "j < length encs" if "j \<in> set (pre @ i # post)" for j
    using that set_settle_order [of "length encs" "arrival net"] so by auto
  have i: "?fetches ! i = Rejected e"
    using in_range [of i] rej by simp
  have "\<forall>j \<in> set pre. \<forall>e'. ?fetches ! j \<noteq> Rejected e'"
  proof (intro ballI allI)
    fix j e' assume j: "j \<in> set pre"
    then have "j < length encs" using in_range [of j] by simp
    moreover from before j have "fetch_then_json net (filter_url @ encs ! j) \<noteq> Rejected e'"
      by (auto simp: request_fails_iff)
    ultimately show "?fetches ! j \<noteq> Rejected e'" by simp
  qed
  with so i have "promise_all ?fetches (arrival net) = Rejected e"
    by (intro promise_all_first [where pre = pre and i = i and post = post]) simp_all
  from search_multi_rejected [OF a1 a2 a3 this] show ?thesis .
qed

lemma example_none:
  "parse_ingredients (js ''none'') = [js ''none'']"
  "encodeURIComponent (js ''none'') = Inr (js ''none'')"
  "parse_ingredients (js ''a, none'') = [js ''a'', js ''none'']"
  "collect (map encodeURIComponent [js ''a'', js ''none'']) = Inr [js ''a'', js ''none'']"
  "parse_ingredients (js ''zzz'') = [js ''zzz'']"
  "parse_ingredients (js ''a, down'') = [js ''a'', js ''down'']"
  "collect (map encodeURIComponent [js ''a'', js ''down'']) = Inr [js ''a'', js ''down'']"
  by (simp_all add: parse_ingredients_def string_eval encode_eval)

lemma example_none_fetch:
  "fetch example_net (filter_url @ js ''none'')
     = Fulfilled \<lparr> status = 200, json = Fulfilled (Some []) \<rparr>"
  "fetch_then_json example_net (filter_url @ js ''none'') = Fulfilled (Some [])"
  by (simp_all add: fetch_then_json_def await_def ok_def example_net_def ok_response_def
        filter_url_def js_def cu_def)

section \<open>The claims\<close>

text \<open>
  C1.  A search with a single term whose request is answered with a list of meals
  leaves exactly that list, in the order of the answer, as the result.  A search with
  several terms, each answered with a list, leaves the meals of the first term's list
  whose identifier occurs in every term's list, in the order of the first list: the
  identifiers of the result are exactly the filtered identifiers of the first list, and
  the result is the filtered first list itself when the identifiers of the first list
  are distinct, as they are within one upstream result.  A non-empty result comes with
  no error.
\<close>

theorem search_returns_upstream_lists:
  "(parse_ingredients query = [ing] \<and> encodeURIComponent ing = Inr enc
      \<and> fetch net (filter_url @ enc) = Fulfilled response \<and> ok response
      \<and> json response = Fulfilled (Some ms)
    \<longrightarrow> recipes (searchRecipes net query st) = ms
        \<and> error (searchRecipes net query st) = [])
   \<and> (parse_ingredients query' = ings \<and> 2 \<le> length ings
      \<and> collect (map encodeURIComponent ings) = Inr encs
      \<and> map (\<lambda>enc. fetch_then_json net (filter_url @ enc)) encs
          = map (\<lambda>l. Fulfilled (Some l)) (firstList # others)
    \<longrightarrow> map idMeal (recipes (searchRecipes net query' st))
          = filter (\<lambda>i. \<forall>l \<in> set (firstList # others). i \<in> idMeal ` set l)
              (map idMeal firstList)
        \<and> (distinct (map idMeal firstList)
            \<longrightarrow> recipes (searchRecipes net query' st)
                 = filter (\<lambda>m. \<forall>l \<in> set (firstList # others). idMeal m \<in> idMeal ` set l)
                     firstList)
        \<and> (recipes (searchRecipes net query' st) \<noteq> []
            \<longrightarrow> error (searchRecipes net query' st) = []))"
proof (intro conjI impI)
  assume a: "parse_ingredients query = [ing] \<and> encodeURIComponent ing = Inr enc
      \<and> fetch net (filter_url @ enc) = Fulfilled response \<and> ok response
      \<and> json response = Fulfilled (Some ms)"
  then have "searchRecipes net query st = (search_reset st)\<lparr> recipes := ms, loading := False \<rparr>"
    by (simp add: search_single_final await_def)
  then show "recipes (searchRecipes net query st) = ms"
    and "error (searchRecipes net query st) = []"
    by simp_all
next
  assume a: "parse_ingredients query' = ings \<and> 2 \<le> length ings
      \<and> collect (map encodeURIComponent ings) = Inr encs
      \<and> map (\<lambda>enc. fetch_then_json net (filter_url @ enc)) encs
          = map (\<lambda>l. Fulfilled (Some l)) (firstList # others)"
  then have a1: "parse_ingredients query' = ings" and a2: "2 \<le> length ings"
    and a3: "collect (map encodeURIComponent ings) = Inr encs"
    and a4: "map (\<lambda>enc. fetch_then_json net (filter_url @ enc)) encs
          = map (\<lambda>l. Fulfilled (Some l)) (firstList # others)"
    by blast+
  have fin: "searchRecipes net query' st =
     (if intersected (firstList # others) firstList \<noteq> []
      then (search_reset st)\<lparr> recipes := intersected (firstList # others) firstList,
                               loading := False \<rparr>
      else (search_reset st)\<lparr> recipes := [], error := no_results_multi ings,
                               loading := False \<rparr>)"
    by (rule search_multi_matching [OF a1 a2 a3 a4])
  then have r: "recipes (searchRecipes net query' st) = intersected (firstList # others) firstList"
    by simp
  show "map idMeal (recipes (searchRecipes net query' st))
          = filter (\<lambda>i. \<forall>l \<in> set (firstList # others). i \<in> idMeal ` set l)
              (map idMeal firstList)"
    unfolding r intersected_ids
    by (simp only: commonIds_def commonIds_member)
  show "recipes (searchRecipes net query' st) \<noteq> [] \<Longrightarrow> error (searchRecipes net query' st) = []"
    using fin by (simp split: if_splits)
  show "distinct (map idMeal firstList) \<Longrightarrow> recipes (searchRecipes net query' st)
                 = filter (\<lambda>m. \<forall>l \<in> set (firstList # others). idMeal m \<in> idMeal ` set l)
                     firstList"
    unfolding r by (rule intersected_distinct)
qed

theorem search_returns_upstream_lists_witness:
  "parse_ingredients (js '' a '') = [js ''a'']
   \<and> recipes (searchRecipes example_net (js '' a '') initial_state)
       = [summary ''1'' ''X'', summary ''2'' ''Y'', summary ''3'' ''Z'']
   \<and> parse_ingredients (js ''a, b'') = [js ''a'', js ''b'']
   \<and> distinct (map idMeal [summary ''1'' ''X'', summary ''2'' ''Y'', summary ''3'' ''Z''])
   \<and> recipes (searchRecipes example_net (js ''a, b'') initial_state)
       = [summary ''2'' ''Y'', summary ''3'' ''Z'']
   \<and> error (searchRecipes example_net (js ''a, b'') initial_state) = []"
proof -
  let ?A = "[summary ''1'' ''X'', summary ''2'' ''Y'', summary ''3'' ''Z'']"
  let ?B = "[summary ''2'' ''Y'', summary ''3'' ''Z'', summary ''4'' ''W'']"
  let ?r = "\<lparr> status = 200, json = Fulfilled (Some ?A) \<rparr>"
  have p1: "parse_ingredients (js '' a '') = [js ''a'']"
    by (simp add: parse_ingredients_def string_eval)
  have e1: "encodeURIComponent (js ''a'') = Inr (js ''a'')"
    by (simp add: string_eval encode_eval)
  have f1: "fetch example_net (filter_url @ js ''a'') = Fulfilled ?r"
    by (simp add: example_net_def ok_response_def)
  have o1: "ok ?r" "json ?r = Fulfilled (Some ?A)"
    by (simp_all add: ok_def)
  have p2: "parse_ingredients (js ''a, b'') = [js ''a'', js ''b'']"
    by (simp add: parse_ingredients_def string_eval)
  have e2: "collect (map encodeURIComponent [js ''a'', js ''b'']) = Inr [js ''a'', js ''b'']"
    by (simp add: string_eval encode_eval)
  have f2: "map (\<lambda>enc. fetch_then_json example_net (filter_url @ enc)) [js ''a'', js ''b'']
          = map (\<lambda>l. Fulfilled (Some l)) (?A # [?B])"
    by (simp add: fetch_then_json_def await_def ok_def example_net_def ok_response_def
          filter_url_def js_def cu_def)
  have d: "distinct (map idMeal ?A)"
    by (simp add: summary_def js_def cu_def)
  have flt: "filter (\<lambda>m. \<forall>l \<in> set (?A # [?B]). idMeal m \<in> idMeal ` set l) ?A
           = [summary ''2'' ''Y'', summary ''3'' ''Z'']"
    by (simp add: summary_def js_def cu_def)
  have l2: "2 \<le> length [js ''a'', js ''b'']" by simp
  from search_returns_upstream_lists
         [where query = "js '' a ''" and ing = "js ''a''" and enc = "js ''a''"
            and net = example_net and response = ?r and ms = ?A and st = initial_state
            and query' = "js ''a, b''" and ings = "[js ''a'', js ''b'']"
            and encs = "[js ''a'', js ''b'']" and firstList = ?A and others = "[?B]"]
       p1 e1 f1 o1 p2 e2 f2 d l2
  have "recipes (searchRecipes example_net (js '' a '') initial_state) = ?A"
    and "recipes (searchRecipes example_net (js ''a, b'') initial_state)
          = filter (\<lambda>m. \<forall>l \<in> set (?A # [?B]). idMeal m \<in> idMeal ` set l) ?A"
    and "recipes (searchRecipes example_net (js ''a, b'') initial_state) \<noteq> []
          \<longrightarrow> error (searchRecipes example_net (js ''a, b'') initial_state) = []"
    by blast+
  with flt p1 p2 d show ?thesis
    by simp
qed




text \<open>
  C3, at a single term whose answer is an empty \<open>meals\<close> array.  The array is truthy,
  so the search takes the branch of a match: it ends with an empty recipe list and no
  error, where the claim has the no-results error with the term.  The same answer in a
  search with two terms ends with the no-results error, and so does a single term
  answered with \<open>null\<close>.
\<close>

theorem single_term_empty_answer_shows_no_error:
  "parse_ingredients (js ''none'') = [js ''none'']
   \<and> fetch example_net (filter_url @ js ''none'')
       = Fulfilled \<lparr> status = 200, json = Fulfilled (Some []) \<rparr>
   \<and> searchRecipes example_net (js ''none'') initial_state
       = initial_state\<lparr> hasSearched := True \<rparr>
   \<and> error (searchRecipes example_net (js ''none'') initial_state) = []
   \<and> recipes (searchRecipes example_net (js ''none'') initial_state) = []
   \<and> error (searchRecipes example_net (js ''a, none'') initial_state)
       = no_results_multi [js ''a'', js ''none'']
   \<and> error (searchRecipes example_net (js ''zzz'') initial_state)
       = no_results_single (js ''zzz'')"
proof -
  let ?A = "[summary ''1'' ''X'', summary ''2'' ''Y'', summary ''3'' ''Z'']"
  have fin: "searchRecipes example_net (js ''none'') initial_state
       = initial_state\<lparr> hasSearched := True \<rparr>"
    by (simp add: search_single_final [OF example_none(1,2)] example_none_fetch await_def ok_def)
       (simp add: search_reset_def initial_state_def)
  have l: "2 \<le> length [js ''a'', js ''none'']" by simp
  have m: "map (\<lambda>enc. fetch_then_json example_net (filter_url @ enc)) [js ''a'', js ''none'']
          = map (\<lambda>l. Fulfilled (Some l)) (?A # [[]])"
    by (simp add: example_chains example_none_fetch)
  have i: "intersected (?A # [[]]) ?A = []"
    by (simp add: intersected_def commonIds_def idSets_def)
  from search_multi_matching [OF example_none(3) l example_none(4) m, of initial_state] i
  have multi: "error (searchRecipes example_net (js ''a, none'') initial_state)
       = no_results_multi [js ''a'', js ''none'']"
    by simp
  have null: "error (searchRecipes example_net (js ''zzz'') initial_state)
       = no_results_single (js ''zzz'')"
    by (simp add: search_single_final [OF example_single(2,6)] example_fetch await_def ok_def)
  from fin multi null example_none(1) example_none_fetch(1) show ?thesis
    by (simp add: initial_state_def)
qed

text \<open>
  C4, at the query \<open>","\<close>.  The query is not blank, so the guard lets it pass; it has
  no term, so the fan-out is empty, \<open>results[0]\<close> is \<open>undefined\<close> and reading its
  \<open>meals\<close> throws a TypeError.  The search ends with the network error message, an
  empty recipe list and \<open>hasSearched\<close> set: it is not a no-op.
\<close>

theorem commas_only_query_reports_network_error:
  "trim (js '','') \<noteq> []
   \<and> parse_ingredients (js '','') = []
   \<and> searchRecipes net (js '','') st =
       (search_reset st)
         \<lparr> console := console st @
              [(js ''Search error:'',
                TypeError (js ''Cannot read properties of undefined (reading ''
                           @ [APOSTROPHE] @ js ''meals'' @ [APOSTROPHE] @ js '')''))],
           error := search_network_message, recipes := [], loading := False \<rparr>
   \<and> error (searchRecipes net (js '','') st) = search_network_message
   \<and> search_network_message \<noteq> []
   \<and> recipes (searchRecipes net (js '','') st) = []
   \<and> hasSearched (searchRecipes net (js '','') st)"
proof -
  have t: "trim (js '','') \<noteq> []"
    by (simp add: string_eval)
  have "search_try net (js '','') [] (search_reset st)
      = Rejected (TypeError (js ''Cannot read properties of undefined (reading ''
                           @ [APOSTROPHE] @ js ''meals'' @ [APOSTROPHE] @ js '')''))"
    by (simp add: search_try_def promise_all_def settle_order_def await_def reduce_results_def)
  with t have fin: "searchRecipes net (js '','') st =
       (search_reset st)
         \<lparr> console := console st @
              [(js ''Search error:'',
                TypeError (js ''Cannot read properties of undefined (reading ''
                           @ [APOSTROPHE] @ js ''meals'' @ [APOSTROPHE] @ js '')''))],
           error := search_network_message, recipes := [], loading := False \<rparr>"
    by (simp add: searchRecipes_def comma_query_terms search_catch_def TypeError_def
          search_reset_def)
  show ?thesis
    unfolding fin using t
    by (simp add: comma_query_terms search_messages_nonempty search_reset_def)
qed

text \<open>
  C5 as stated fails: with the details of a meal on display, a lookup that finds no
  record leaves the detail record \<open>null\<close>.
\<close>

theorem details_not_found_clears_record:
  "fetch example_net (lookup_url @ js ''99999'')
     = Fulfilled \<lparr> status = 200, json = Fulfilled None \<rparr>
   \<and> recipeDetails showing_state = Some example_detail
   \<and> recipeDetails (fetchRecipeDetails example_net (js ''99999'') showing_state) = None
   \<and> recipeDetails (fetchRecipeDetails example_net (js ''99999'') showing_state)
       \<noteq> recipeDetails showing_state"
proof -
  have n: "js ''99999'' \<noteq> []" by (simp add: js_def)
  have tr: "details_try example_net (js ''99999'') (details_reset showing_state)
          = Rejected (Error (js ''Recipe details not found''))"
    by (simp add: details_try_def example_fetch await_def ok_def)
  have old: "recipeDetails showing_state = Some example_detail"
    by (simp add: showing_state_def)
  have "recipeDetails (fetchRecipeDetails example_net (js ''99999'') showing_state) = None"
    using n by (simp add: fetchRecipeDetails_def tr details_catch_def)
  with old example_fetch(5) show ?thesis by simp
qed

text \<open>
  C5, amended.  A lookup answered without a record (\<open>meals\<close> is \<open>null\<close> or empty)
  throws the error "Recipe details not found", which is not a TypeError.  The handler
  logs it, shows the generic details message, sets the detail record to \<open>null\<close> and
  the loading flag to false; every other cell of the state is unchanged.
\<close>

theorem details_not_found_outcome:
  "recipeId \<noteq> [] \<and> fetch net (lookup_url @ recipeId) = Fulfilled response \<and> ok response
     \<and> json response = Fulfilled data \<and> (data = None \<or> data = Some [])
   \<longrightarrow> details_try net recipeId (details_reset st)
         = Rejected (Error (js ''Recipe details not found''))
       \<and> err_name (Error (js ''Recipe details not found'')) \<noteq> js ''TypeError''
       \<and> fetchRecipeDetails net recipeId st =
           st\<lparr> detailsLoading := False, detailsError := details_apology_message,
               recipeDetails := None,
               console := console st @
                 [(js ''Details fetch error:'', Error (js ''Recipe details not found''))] \<rparr>"
proof (intro impI)
  assume a: "recipeId \<noteq> [] \<and> fetch net (lookup_url @ recipeId) = Fulfilled response \<and> ok response
     \<and> json response = Fulfilled data \<and> (data = None \<or> data = Some [])"
  then have tr: "details_try net recipeId (details_reset st)
         = Rejected (Error (js ''Recipe details not found''))"
    by (auto simp: details_try_def await_def)
  have nm: "err_name (Error (js ''Recipe details not found'')) \<noteq> js ''TypeError''"
    by (simp add: Error_def js_def cu_def)
  from a have "recipeId \<noteq> []" by blast
  then have "fetchRecipeDetails net recipeId st =
           st\<lparr> detailsLoading := False, detailsError := details_apology_message,
               recipeDetails := None,
               console := console st @
                 [(js ''Details fetch error:'', Error (js ''Recipe details not found''))] \<rparr>"
    using nm by (simp add: fetchRecipeDetails_def tr) (simp add: details_catch_def details_reset_def)
  with tr nm show "details_try net recipeId (details_reset st)
         = Rejected (Error (js ''Recipe details not found''))
       \<and> err_name (Error (js ''Recipe details not found'')) \<noteq> js ''TypeError''
       \<and> fetchRecipeDetails net recipeId st =
           st\<lparr> detailsLoading := False, detailsError := details_apology_message,
               recipeDetails := None,
               console := console st @
                 [(js ''Details fetch error:'', Error (js ''Recipe details not found''))] \<rparr>"
    by blast
qed

theorem details_not_found_outcome_witness:
  "js ''99999'' \<noteq> []
   \<and> fetch example_net (lookup_url @ js ''99999'')
       = Fulfilled \<lparr> status = 200, json = Fulfilled None \<rparr>
   \<and> fetchRecipeDetails example_net (js ''99999'') showing_state =
       showing_state\<lparr> detailsLoading := False, detailsError := details_apology_message,
               recipeDetails := None,
               console := console showing_state @
                 [(js ''Details fetch error:'', Error (js ''Recipe details not found''))] \<rparr>"
proof -
  let ?r = "\<lparr> status = 200, json = Fulfilled None \<rparr>"
  have n: "js ''99999'' \<noteq> []" by (simp add: js_def)
  have o: "ok ?r" "json ?r = Fulfilled None" by (simp_all add: ok_def)
  from details_not_found_outcome
         [where recipeId = "js ''99999''" and net = example_net and response = ?r
            and data = None and st = showing_state]
       n example_fetch(5) o
  show ?thesis by blast
qed

text \<open>
  C6.  \<open>extractIngredients\<close> visits the slots 1 to 20 in ascending order and emits
  one entry for each slot whose ingredient name is present and not blank after
  trimming, with the trimmed name and the trimmed measure, the measure being the empty
  string when absent; no emitted name is empty or has blank ends.
\<close>

theorem extractIngredients_slots:
  "extractIngredients d =
     map (\<lambda>i. \<lparr> ingredient = trim (case strIngredient d i of None \<Rightarrow> [] | Some s \<Rightarrow> s),
                measure_text = trim (case strMeasure d i of None \<Rightarrow> [] | Some m \<Rightarrow> m) \<rparr>)
         (filter (\<lambda>i. \<exists>s. strIngredient d i = Some s \<and> trim s \<noteq> []) [1..<21])
   \<and> (\<forall>e \<in> set (extractIngredients d). ingredient e \<noteq> [] \<and> trim (ingredient e) = ingredient e)"
proof
  have "map (slot_line d) (filter (slot_present d) [1..<21])
      = map (\<lambda>i. \<lparr> ingredient = trim (case strIngredient d i of None \<Rightarrow> [] | Some s \<Rightarrow> s),
                measure_text = trim (case strMeasure d i of None \<Rightarrow> [] | Some m \<Rightarrow> m) \<rparr>)
         (filter (slot_present d) [1..<21])"
    by (rule map_cong) (auto simp: slot_present_iff slot_line_def truthy_def split: option.splits)
  moreover have "slot_present d = (\<lambda>i. \<exists>s. strIngredient d i = Some s \<and> trim s \<noteq> [])"
    by (rule ext) (rule slot_present_iff)
  ultimately show "extractIngredients d =
     map (\<lambda>i. \<lparr> ingredient = trim (case strIngredient d i of None \<Rightarrow> [] | Some s \<Rightarrow> s),
                measure_text = trim (case strMeasure d i of None \<Rightarrow> [] | Some m \<Rightarrow> m) \<rparr>)
         (filter (\<lambda>i. \<exists>s. strIngredient d i = Some s \<and> trim s \<noteq> []) [1..<21])"
    by (simp add: extractIngredients_closed)
next
  show "\<forall>e \<in> set (extractIngredients d). ingredient e \<noteq> [] \<and> trim (ingredient e) = ingredient e"
    by (auto simp: extractIngredients_closed slot_present_iff slot_line_name trim_idem)
qed

theorem extractIngredients_slots_witness:
  "extractIngredients example_detail =
       [\<lparr> ingredient = js ''soy sauce'', measure_text = js ''3/4 cup'' \<rparr>,
        \<lparr> ingredient = js ''water'', measure_text = [] \<rparr>,
        \<lparr> ingredient = js ''chicken'', measure_text = [] \<rparr>]
   \<and> list_all (\<lambda>e. ingredient e \<noteq> [] \<and> trim (ingredient e) = ingredient e)
        (extractIngredients example_detail)"
  using extractIngredients_slots [of example_detail]
  by (simp add: upt_conv_Cons example_detail_def js_def cu_def trim_def isWhiteSpace_def)

text \<open>
  C7.  \<open>formatInstructions\<close> returns no step for \<open>null\<close> and for the empty string;
  otherwise it splits the text at the line feeds (the pieces joined by line feeds are
  the text again, and no piece holds a line feed), drops the pieces that are blank
  after trimming and trims the others, in the order of the text.  Every step is
  non-empty and trimmed.
\<close>

theorem formatInstructions_lines:
  "formatInstructions None = []
   \<and> formatInstructions (Some []) = []
   \<and> formatInstructions (Some s) = map trim (filter (\<lambda>l. trim l \<noteq> []) (js_split LF s))
   \<and> js_join [LF] (js_split LF s) = s
   \<and> (\<forall>l \<in> set (js_split LF s). LF \<notin> set l)
   \<and> (\<forall>l \<in> set (formatInstructions t). l \<noteq> [] \<and> trim l = l)
   \<and> formatInstructions (Some (js ''Step one.\<newline>\<newline>Step two.\<newline>  ''))
       = [js ''Step one.'', js ''Step two.'']"
proof (intro conjI)
  show "formatInstructions None = []"
    by (simp add: formatInstructions_def truthy_def)
  show "formatInstructions (Some []) = []"
    by (simp add: formatInstructions_def truthy_def)
  show "formatInstructions (Some s) = map trim (filter (\<lambda>l. trim l \<noteq> []) (js_split LF s))"
    by (cases s) (simp_all add: formatInstructions_def truthy_def js_split_def)
  show "js_join [LF] (js_split LF s) = s"
    by (rule js_split_join)
  show "\<forall>l \<in> set (js_split LF s). LF \<notin> set l"
    by (simp add: js_split_no_sep)
  show "\<forall>l \<in> set (formatInstructions t). l \<noteq> [] \<and> trim l = l"
    by (auto simp: formatInstructions_def trim_idem)
  show "formatInstructions (Some (js ''Step one.\<newline>\<newline>Step two.\<newline>  ''))
       = [js ''Step one.'', js ''Step two.'']"
    by (simp add: formatInstructions_def truthy_def js_split_def LF_def js_def cu_def trim_def isWhiteSpace_def)
qed

theorem formatInstructions_lines_witness:
  "js_split LF (js ''a\<newline> b '') = [js ''a'', js '' b '']
   \<and> LF \<notin> set (js ''a'') \<and> LF \<notin> set (js '' b '')
   \<and> formatInstructions (Some (js ''a\<newline> b '')) = [js ''a'', js ''b'']
   \<and> trim (js ''a'') = js ''a'' \<and> trim (js ''b'') = js ''b''"
  using formatInstructions_lines [of "js ''a\<newline> b ''" "Some (js ''a\<newline> b '')"]
  by (simp add: js_split_def LF_def js_def cu_def trim_def isWhiteSpace_def)

text \<open>
  C8 as stated fails: in a search for two terms of which one is answered with status
  500 and the other fails in transport, the search shows the apology message when the
  status arrives first, although a request failed in transport, and the network
  message when the transport failure arrives first, although a request was answered
  with a non-success status, whose code is then not logged.
\<close>

theorem mixed_failures_show_one_category:
  "fetch example_net (filter_url @ js ''err'') = Fulfilled \<lparr> status = 500, json = Pending \<rparr>
   \<and> \<not> ok \<lparr> status = 500, json = Pending \<rparr>
   \<and> transport_failure (fetch example_net (filter_url @ js ''down''))
   \<and> error (searchRecipes example_net (js ''err, down'') initial_state)
       = search_apology_message
   \<and> error (searchRecipes (example_net\<lparr> arrival := [1, 0] \<rparr>) (js ''err, down'') initial_state)
       = search_network_message
   \<and> console (searchRecipes (example_net\<lparr> arrival := [1, 0] \<rparr>) (js ''err, down'')
               initial_state)
       = [(js ''Search error:'', TypeError (js ''Failed to fetch''))]
   \<and> search_apology_message \<noteq> search_network_message"
proof -
  let ?net = "example_net\<lparr> arrival := [1, 0] \<rparr>"
  have tf: "transport_failure (fetch example_net (filter_url @ js ''down''))"
    by (simp add: transport_failure_def example_fetch error_names)
  have nok: "\<not> ok \<lparr> status = 500, json = Pending \<rparr>" by (simp add: ok_def)
  have l: "2 \<le> length [js ''err'', js ''down'']" by simp
  have so: "settle_order (length [js ''err'', js ''down'']) (arrival example_net) = [] @ 0 # [1]"
    by (simp add: settle_order_def example_net_def upt_conv_Cons)
  have so': "settle_order (length [js ''err'', js ''down'']) (arrival ?net) = [] @ 1 # [0]"
    by (simp add: settle_order_def)
  have r0: "fetch_then_json example_net (filter_url @ [js ''err'', js ''down''] ! 0)
          = Rejected (http_error 500)"
    by (simp add: example_chains)
  have r1: "fetch_then_json ?net (filter_url @ [js ''err'', js ''down''] ! 1)
          = Rejected (TypeError (js ''Failed to fetch''))"
    using example_chains(5) by (simp add: fetch_then_json_def)
  have e: "\<forall>j \<in> set []. \<not> request_fails example_net (filter_url @ [js ''err'', js ''down''] ! j)"
    "\<forall>j \<in> set []. \<not> request_fails ?net (filter_url @ [js ''err'', js ''down''] ! j)"
    by simp_all
  from search_multi_first_failure [OF example_multi(5) l example_multi(10) so e(1) r0, of initial_state]
  have c1: "error (searchRecipes example_net (js ''err, down'') initial_state)
       = search_apology_message"
    by (simp add: search_catch_def error_names)
  from search_multi_first_failure [OF example_multi(5) l example_multi(10) so' e(2) r1, of initial_state]
  have c2: "error (searchRecipes ?net (js ''err, down'') initial_state) = search_network_message"
    and c3: "console (searchRecipes ?net (js ''err, down'') initial_state)
       = [(js ''Search error:'', TypeError (js ''Failed to fetch''))]"
    by (simp_all add: search_catch_def error_names search_reset_def initial_state_def)
  from tf nok c1 c2 c3 example_fetch(1) messages_differ show ?thesis
    by (simp add: eq_commute [of search_apology_message])
qed

text \<open>
  C8, amended.  The failure that decides a search sets the category.  In a search with
  a single term, a transport failure of its request ends the search with the network
  message, and an answer with a status outside 200..299 ends it with the apology
  message and logs an error carrying the status code.  In a search with several terms
  the deciding failure is the first request to fail in the order in which the requests
  settle: when the requests that settle before it do not fail, its transport failure
  ends the search with the network message, and its non-success status ends it with
  the apology message and logs that status code.  The logged message holds the decimal
  digits of the code, from which the code can be read back, and the two messages
  differ.
\<close>

theorem deciding_failure_sets_category:
  "(parse_ingredients query = [ing] \<and> encodeURIComponent ing = Inr enc
      \<and> transport_failure (fetch net (filter_url @ enc))
     \<longrightarrow> error (searchRecipes net query st) = search_network_message
         \<and> recipes (searchRecipes net query st) = [])
   \<and> (parse_ingredients query' = [ing'] \<and> encodeURIComponent ing' = Inr enc'
      \<and> fetch net (filter_url @ enc') = Fulfilled response \<and> \<not> ok response
     \<longrightarrow> error (searchRecipes net query' st) = search_apology_message
         \<and> recipes (searchRecipes net query' st) = []
         \<and> console (searchRecipes net query' st)
             = console st @ [(js ''Search error:'', http_error (status response))])
   \<and> (parse_ingredients query'' = ings \<and> 2 \<le> length ings
      \<and> collect (map encodeURIComponent ings) = Inr encs
      \<and> settle_order (length encs) (arrival net) = pre @ i # post
      \<and> (\<forall>j \<in> set pre. \<not> request_fails net (filter_url @ encs ! j))
     \<longrightarrow> (transport_failure (fetch net (filter_url @ encs ! i))
           \<longrightarrow> error (searchRecipes net query'' st) = search_network_message
               \<and> recipes (searchRecipes net query'' st) = [])
         \<and> (fetch net (filter_url @ encs ! i) = Fulfilled response' \<and> \<not> ok response'
           \<longrightarrow> error (searchRecipes net query'' st) = search_apology_message
               \<and> recipes (searchRecipes net query'' st) = []
               \<and> console (searchRecipes net query'' st)
                   = console st @ [(js ''Search error:'', http_error (status response'))]))
   \<and> err_message (http_error code) = js ''HTTP error! status: '' @ show_nat code
   \<and> (show_nat code = show_nat code' \<longrightarrow> code = code')
   \<and> search_network_message \<noteq> search_apology_message"
proof (intro conjI impI)
  assume a: "parse_ingredients query = [ing] \<and> encodeURIComponent ing = Inr enc
      \<and> transport_failure (fetch net (filter_url @ enc))"
  then obtain err where err: "fetch net (filter_url @ enc) = Rejected err"
      "err_name err = js ''TypeError''"
    using transport_failure_Rejected by blast
  with a have "searchRecipes net query st
      = (search_catch err (search_reset st))\<lparr> loading := False \<rparr>"
    by (simp add: search_single_final await_def)
  then show "error (searchRecipes net query st) = search_network_message"
    and "recipes (searchRecipes net query st) = []"
    by (simp_all add: search_catch_def err(2))
next
  assume a: "parse_ingredients query' = [ing'] \<and> encodeURIComponent ing' = Inr enc'
      \<and> fetch net (filter_url @ enc') = Fulfilled response \<and> \<not> ok response"
  then have "searchRecipes net query' st
      = (search_catch (http_error (status response)) (search_reset st))\<lparr> loading := False \<rparr>"
    by (simp add: search_single_final await_def)
  then show "error (searchRecipes net query' st) = search_apology_message"
    and "recipes (searchRecipes net query' st) = []"
    and "console (searchRecipes net query' st)
             = console st @ [(js ''Search error:'', http_error (status response))]"
    by (simp_all add: search_catch_def error_names search_reset_def)
next
  assume a: "parse_ingredients query'' = ings \<and> 2 \<le> length ings
      \<and> collect (map encodeURIComponent ings) = Inr encs
      \<and> settle_order (length encs) (arrival net) = pre @ i # post
      \<and> (\<forall>j \<in> set pre. \<not> request_fails net (filter_url @ encs ! j))"
  then have a1: "parse_ingredients query'' = ings" and a2: "2 \<le> length ings"
    and a3: "collect (map encodeURIComponent ings) = Inr encs"
    and so: "settle_order (length encs) (arrival net) = pre @ i # post"
    and before: "\<forall>j \<in> set pre. \<not> request_fails net (filter_url @ encs ! j)"
    by blast+
  note decide = search_multi_first_failure [OF a1 a2 a3 so before]
  {
    assume "transport_failure (fetch net (filter_url @ encs ! i))"
    from chain_transport_failure [OF this]
    obtain err where err: "fetch_then_json net (filter_url @ encs ! i) = Rejected err"
        "err_name err = js ''TypeError''"
      by blast
    from decide [OF err(1), of st]
    show "error (searchRecipes net query'' st) = search_network_message"
      and "recipes (searchRecipes net query'' st) = []"
      by (simp_all add: search_catch_def err(2))
  }
  {
    assume "fetch net (filter_url @ encs ! i) = Fulfilled response' \<and> \<not> ok response'"
    then have "fetch_then_json net (filter_url @ encs ! i) = Rejected (http_error (status response'))"
      by (simp add: chain_http_failure)
    from decide [OF this, of st]
    show "error (searchRecipes net query'' st) = search_apology_message"
      and "recipes (searchRecipes net query'' st) = []"
      and "console (searchRecipes net query'' st)
                   = console st @ [(js ''Search error:'', http_error (status response'))]"
      by (simp_all add: search_catch_def error_names search_reset_def)
  }
next
  show "err_message (http_error code) = js ''HTTP error! status: '' @ show_nat code"
    by (rule error_names)
  show "show_nat code = show_nat code' \<Longrightarrow> code = code'"
    by (rule show_nat_inj)
  show "search_network_message \<noteq> search_apology_message"
    by (rule messages_differ)
qed

theorem deciding_failure_sets_category_witness:
  "transport_failure (fetch example_net (filter_url @ js ''down''))
   \<and> error (searchRecipes example_net (js ''down'') initial_state) = search_network_message
   \<and> \<not> ok \<lparr> status = 500, json = Pending \<rparr>
   \<and> error (searchRecipes example_net (js ''err'') initial_state) = search_apology_message
   \<and> console (searchRecipes example_net (js ''err'') initial_state)
       = [(js ''Search error:'', http_error 500)]
   \<and> err_message (http_error 500) = js ''HTTP error! status: 500''
   \<and> settle_order 2 (arrival example_net) = [0] @ 1 # []
   \<and> \<not> request_fails example_net (filter_url @ js ''a'')
   \<and> error (searchRecipes example_net (js ''a, down'') initial_state) = search_network_message
   \<and> recipes (searchRecipes example_net (js ''a, down'') initial_state) = []
   \<and> error (searchRecipes example_net (js ''err, down'') initial_state)
       = search_apology_message
   \<and> console (searchRecipes example_net (js ''err, down'') initial_state)
       = [(js ''Search error:'', http_error 500)]"
proof -
  let ?r = "\<lparr> status = 500, json = Pending \<rparr> :: response"
  have tf: "transport_failure (fetch example_net (filter_url @ js ''down''))"
    by (simp add: transport_failure_def example_fetch error_names)
  have nok: "\<not> ok ?r" by (simp add: ok_def)
  have st: "status ?r = 500" by simp
  have c0: "console initial_state = []" by (simp add: initial_state_def)
  have l: "2 \<le> length [js ''a'', js ''down'']" "2 \<le> length [js ''err'', js ''down'']"
    by simp_all
  have n500: "show_nat 500 = js ''500''"
    by (simp add: show_nat.simps js_def cu_def)
  have so: "settle_order 2 (arrival example_net) = [0] @ 1 # []"
    by (simp add: settle_order_def example_net_def upt_conv_Cons)
  have so1: "settle_order (length [js ''a'', js ''down'']) (arrival example_net) = [0] @ 1 # []"
    using so by (simp add: numeral_2_eq_2)
  have so2: "settle_order (length [js ''err'', js ''down'']) (arrival example_net) = [] @ 0 # [1]"
    using so by (simp add: numeral_2_eq_2)
  have nf: "\<not> request_fails example_net (filter_url @ js ''a'')"
    using example_chains(1) by (simp add: request_fails_iff)
  have b1: "\<forall>j \<in> set [0]. \<not> request_fails example_net (filter_url @ [js ''a'', js ''down''] ! j)"
    using nf by simp
  have b2: "\<forall>j \<in> set []. \<not> request_fails example_net (filter_url @ [js ''err'', js ''down''] ! j)"
    by simp
  have i1: "transport_failure (fetch example_net (filter_url @ [js ''a'', js ''down''] ! 1))"
    using tf by simp
  have i2: "fetch example_net (filter_url @ [js ''err'', js ''down''] ! 0) = Fulfilled ?r"
    using example_fetch(1) by simp
  note inst = deciding_failure_sets_category
      [where query = "js ''down''" and ing = "js ''down''" and enc = "js ''down''"
         and net = example_net and st = initial_state
         and query' = "js ''err''" and ing' = "js ''err''" and enc' = "js ''err''"
         and response = ?r
         and query'' = "js ''a, down''" and ings = "[js ''a'', js ''down'']"
         and encs = "[js ''a'', js ''down'']" and pre = "[0]" and i = 1 and post = "[]"
         and code = 500]
  note inst' = deciding_failure_sets_category
      [where net = example_net and st = initial_state
         and query'' = "js ''err, down''" and ings = "[js ''err'', js ''down'']"
         and encs = "[js ''err'', js ''down'']" and pre = "[]" and i = 0 and post = "[1]"
         and response' = ?r]
  from inst example_single(3,7) tf
  have c1: "error (searchRecipes example_net (js ''down'') initial_state) = search_network_message"
    by blast
  from inst example_single(1,5) example_fetch(1) nok
  have c2: "error (searchRecipes example_net (js ''err'') initial_state) = search_apology_message"
    and c3: "console (searchRecipes example_net (js ''err'') initial_state)
       = console initial_state @ [(js ''Search error:'', http_error (status ?r))]"
    by blast+
  from inst have c4: "err_message (http_error 500) = js ''HTTP error! status: '' @ show_nat 500"
    by blast
  from inst example_none(6,7) l(1) so1 b1 i1
  have c5: "error (searchRecipes example_net (js ''a, down'') initial_state)
              = search_network_message"
    and c6: "recipes (searchRecipes example_net (js ''a, down'') initial_state) = []"
    by blast+
  from inst' example_multi(5,10) l(2) so2 b2 i2 nok
  have c7: "error (searchRecipes example_net (js ''err, down'') initial_state)
       = search_apology_message"
    and c8: "console (searchRecipes example_net (js ''err, down'') initial_state)
       = console initial_state @ [(js ''Search error:'', http_error (status ?r))]"
    by blast+
  from tf nok c1 c2 c3 c4 c5 c6 c7 c8 n500 so nf show ?thesis
    by (simp add: c0 js_def)
qed

text \<open>
  C9.  Every identifier that the intersection filter retains is a key of the map built
  from the first term's list, so \<open>build_meal\<close> answers from the map and never scans the
  other lists; no entry of the mapped list is \<open>null\<close>, and the final filter removes
  nothing.
\<close>

theorem fallback_never_taken:
  "(\<forall>i \<in> set (commonIds mealLists firstList).
      mealMap firstList i \<noteq> None
      \<and> build_meal mealLists firstList i = mealMap firstList i)
   \<and> map Some (intersected mealLists firstList)
       = map (build_meal mealLists firstList) (commonIds mealLists firstList)
   \<and> length (intersected mealLists firstList) = length (commonIds mealLists firstList)"
proof (intro conjI ballI)
  fix i assume "i \<in> set (commonIds mealLists firstList)"
  from build_meal_common [OF this]
  show "mealMap firstList i \<noteq> None"
    and "build_meal mealLists firstList i = mealMap firstList i"
    by simp_all
next
  show "map Some (intersected mealLists firstList)
       = map (build_meal mealLists firstList) (commonIds mealLists firstList)"
    by (rule intersected_Some)
  show "length (intersected mealLists firstList) = length (commonIds mealLists firstList)"
    by (simp add: intersected_eq)
qed

theorem fallback_never_taken_witness:
  "commonIds [[summary ''1'' ''X'', summary ''2'' ''Y'', summary ''3'' ''Z''],
              [summary ''2'' ''Y'', summary ''3'' ''Z'', summary ''4'' ''W'']]
             [summary ''1'' ''X'', summary ''2'' ''Y'', summary ''3'' ''Z'']
     = [js ''2'', js ''3'']
   \<and> mealMap [summary ''1'' ''X'', summary ''2'' ''Y'', summary ''3'' ''Z''] (js ''2'') \<noteq> None
   \<and> mealMap [summary ''1'' ''X'', summary ''2'' ''Y'', summary ''3'' ''Z''] (js ''3'') \<noteq> None
   \<and> length (intersected
               [[summary ''1'' ''X'', summary ''2'' ''Y'', summary ''3'' ''Z''],
                [summary ''2'' ''Y'', summary ''3'' ''Z'', summary ''4'' ''W'']]
               [summary ''1'' ''X'', summary ''2'' ''Y'', summary ''3'' ''Z'']) = 2"
proof -
  let ?A = "[summary ''1'' ''X'', summary ''2'' ''Y'', summary ''3'' ''Z'']"
  let ?B = "[summary ''2'' ''Y'', summary ''3'' ''Z'', summary ''4'' ''W'']"
  have c: "commonIds [?A, ?B] ?A = [js ''2'', js ''3'']"
    by (simp add: commonIds_def idSets_def summary_def js_def cu_def)
  from fallback_never_taken [of "[?A, ?B]" ?A] show ?thesis
    unfolding c by simp
qed

text \<open>
  C10.  A search with a query that is not blank clears the selected recipe, the detail
  record and the detail error in the resets before the \<open>try\<close>.  While the awaited
  requests are pending the state is the reset state, and whatever the network answers
  the three cells are still cleared when the search ends.
\<close>

theorem search_clears_detail_state:
  "trim query \<noteq> [] \<longrightarrow>
     selectedRecipe (search_reset st) = None
     \<and> recipeDetails (search_reset st) = None
     \<and> detailsError (search_reset st) = []
     \<and> (search_try net query (parse_ingredients query) (search_reset st) = Pending
          \<longrightarrow> searchRecipes net query st = search_reset st)
     \<and> selectedRecipe (searchRecipes net query st) = None
     \<and> recipeDetails (searchRecipes net query st) = None
     \<and> detailsError (searchRecipes net query st) = []"
proof
  assume t: "trim query \<noteq> []"
  have r: "selectedRecipe (search_reset st) = None" "recipeDetails (search_reset st) = None"
    "detailsError (search_reset st) = []"
    by (simp_all add: search_reset_def)
  have p: "search_try net query (parse_ingredients query) (search_reset st) = Pending
          \<longrightarrow> searchRecipes net query st = search_reset st"
    using t by (simp add: searchRecipes_def)
  have "selectedRecipe (searchRecipes net query st) = None
     \<and> recipeDetails (searchRecipes net query st) = None
     \<and> detailsError (searchRecipes net query st) = []"
  proof (cases "search_try net query (parse_ingredients query) (search_reset st)")
    case Pending
    with t r show ?thesis by (simp add: searchRecipes_def)
  next
    case (Rejected e)
    with t r show ?thesis by (simp add: searchRecipes_def search_catch_def)
  next
    case (Fulfilled st')
    from search_try_keeps_details [OF Fulfilled] t r Fulfilled show ?thesis
      by (simp add: searchRecipes_def)
  qed
  with r p show "selectedRecipe (search_reset st) = None
     \<and> recipeDetails (search_reset st) = None
     \<and> detailsError (search_reset st) = []
     \<and> (search_try net query (parse_ingredients query) (search_reset st) = Pending
          \<longrightarrow> searchRecipes net query st = search_reset st)
     \<and> selectedRecipe (searchRecipes net query st) = None
     \<and> recipeDetails (searchRecipes net query st) = None
     \<and> detailsError (searchRecipes net query st) = []"
    by blast
qed

theorem search_clears_detail_state_witness:
  "trim (js ''slow'') \<noteq> []
   \<and> selectedRecipe showing_state \<noteq> None
   \<and> recipeDetails showing_state \<noteq> None
   \<and> search_try example_net (js ''slow'') (parse_ingredients (js ''slow''))
        (search_reset showing_state) = Pending
   \<and> searchRecipes example_net (js ''slow'') showing_state = search_reset showing_state
   \<and> selectedRecipe (searchRecipes example_net (js ''slow'') showing_state) = None
   \<and> recipeDetails (searchRecipes example_net (js ''slow'') showing_state) = None
   \<and> detailsError (searchRecipes example_net (js ''slow'') showing_state) = []"
proof -
  have t: "trim (js ''slow'') \<noteq> []"
    by (simp add: string_eval)
  have old: "selectedRecipe showing_state \<noteq> None" "recipeDetails showing_state \<noteq> None"
    by (simp_all add: showing_state_def)
  have p: "search_try example_net (js ''slow'') (parse_ingredients (js ''slow''))
             (search_reset showing_state) = Pending"
    by (simp add: example_single search_try_single example_fetch await_def)
  from search_clears_detail_state [of "js ''slow''" showing_state example_net] t p old
  show ?thesis
    by blast
qed

end
